theory Spec2Isabelle
  imports Complex_Main "HOL-Library.Product_Lexorder" "HOL-Library.Multiset"
begin

section \<open>JavaScript numbers\<close>

text \<open>
  A JavaScript number is modelled as an exact real, one of the two infinities, or NaN.
  Arithmetic on finite values is exact: binary rounding, overflow to an infinity and the
  sign of zero are outside the model (zero is the positive zero). Division by zero, the
  arithmetic of the infinities and the propagation of NaN follow IEEE 754.
\<close>

datatype jsnum = NaN | NInf | Fin real | PInf

fun isNaN :: "jsnum \<Rightarrow> bool" where
  "isNaN NaN = True"
| "isNaN _ = False"

text \<open>The position of a number that is not NaN in the order of the extended reals.\<close>

fun jkey :: "jsnum \<Rightarrow> int \<times> real" where
  "jkey NInf = (-1, 0)"
| "jkey (Fin r) = (0, r)"
| "jkey PInf = (1, 0)"
| "jkey NaN = (0, 0)"

definition jlt :: "jsnum \<Rightarrow> jsnum \<Rightarrow> bool" where
  "jlt a b = (\<not> isNaN a \<and> \<not> isNaN b \<and> jkey a < jkey b)"

definition jle :: "jsnum \<Rightarrow> jsnum \<Rightarrow> bool" where
  "jle a b = (\<not> isNaN a \<and> \<not> isNaN b \<and> jkey a \<le> jkey b)"

definition jgt :: "jsnum \<Rightarrow> jsnum \<Rightarrow> bool" where
  "jgt a b = jlt b a"

definition jge :: "jsnum \<Rightarrow> jsnum \<Rightarrow> bool" where
  "jge a b = jle b a"

text \<open>Strict equality \<open>===\<close> on numbers: NaN is not equal to itself.\<close>

definition jeq :: "jsnum \<Rightarrow> jsnum \<Rightarrow> bool" where
  "jeq a b = (\<not> isNaN a \<and> a = b)"

text \<open>Truthiness of a number: \<open>0\<close> and NaN are falsy.\<close>

fun truthy :: "jsnum \<Rightarrow> bool" where
  "truthy NaN = False"
| "truthy (Fin r) = (r \<noteq> 0)"
| "truthy _ = True"

fun jneg :: "jsnum \<Rightarrow> jsnum" where
  "jneg NaN = NaN"
| "jneg NInf = PInf"
| "jneg PInf = NInf"
| "jneg (Fin r) = Fin (- r)"

fun jadd :: "jsnum \<Rightarrow> jsnum \<Rightarrow> jsnum" where
  "jadd (Fin a) (Fin b) = Fin (a + b)"
| "jadd NaN _ = NaN"
| "jadd _ NaN = NaN"
| "jadd PInf NInf = NaN"
| "jadd NInf PInf = NaN"
| "jadd PInf _ = PInf"
| "jadd NInf _ = NInf"
| "jadd _ PInf = PInf"
| "jadd _ NInf = NInf"

definition jsub :: "jsnum \<Rightarrow> jsnum \<Rightarrow> jsnum" where
  "jsub a b = jadd a (jneg b)"

text \<open>An infinity of the sign of \<open>r\<close> times the sign of the infinity \<open>pos\<close>; \<open>\<infinity> \<times> 0\<close> is NaN.\<close>

definition inf_times :: "bool \<Rightarrow> real \<Rightarrow> jsnum" where
  "inf_times pos r = (if r = 0 then NaN else if (0 < r) = pos then PInf else NInf)"

fun jmul :: "jsnum \<Rightarrow> jsnum \<Rightarrow> jsnum" where
  "jmul (Fin a) (Fin b) = Fin (a * b)"
| "jmul NaN _ = NaN"
| "jmul _ NaN = NaN"
| "jmul PInf (Fin b) = inf_times True b"
| "jmul NInf (Fin b) = inf_times False b"
| "jmul (Fin a) PInf = inf_times True a"
| "jmul (Fin a) NInf = inf_times False a"
| "jmul PInf PInf = PInf"
| "jmul NInf NInf = PInf"
| "jmul PInf NInf = NInf"
| "jmul NInf PInf = NInf"

fun jdiv :: "jsnum \<Rightarrow> jsnum \<Rightarrow> jsnum" where
  "jdiv (Fin a) (Fin b) = (if b = 0 then inf_times True a else Fin (a / b))"
| "jdiv NaN _ = NaN"
| "jdiv _ NaN = NaN"
| "jdiv (Fin a) _ = Fin 0"
| "jdiv PInf (Fin b) = (if 0 \<le> b then PInf else NInf)"
| "jdiv NInf (Fin b) = (if 0 \<le> b then NInf else PInf)"
| "jdiv _ _ = NaN"

fun jabs :: "jsnum \<Rightarrow> jsnum" where
  "jabs NaN = NaN"
| "jabs (Fin r) = Fin \<bar>r\<bar>"
| "jabs _ = PInf"

text \<open>\<open>Math.min\<close> of two numbers: NaN if either is NaN.\<close>

definition jmin :: "jsnum \<Rightarrow> jsnum \<Rightarrow> jsnum" where
  "jmin a b = (if isNaN a \<or> isNaN b then NaN else if jkey a \<le> jkey b then a else b)"


section \<open>The impact calculation (app/page.js, calculateMarketImpact)\<close>

datatype side = Buy | Sell

datatype orderType = Market | Limit

datatype venue = OKX | BYBIT | DERIBIT

text \<open>
  A price level of a book as \<open>updateUI\<close> builds it: \<open>{price, size}\<close>, both numbers.
\<close>

record level =
  price :: jsnum
  size_l :: jsnum

record book =
  bids :: "level list"
  asks :: "level list"

text \<open>
  The order parameters. \<open>quantity\<close>, \<open>limit_price\<close> hold the number that \<open>parseFloat\<close>
  yields on the form's field (every use in page.js goes through \<open>parseFloat\<close>, which
  returns a number unchanged); the field \<open>price\<close> of the source is \<open>limit_price\<close> here.
  The order type is \<open>'Limit'\<close> or \<open>'Market'\<close> (the two options of the form), so
  \<open>orderType.includes('Limit')\<close> is \<open>orderType = Limit\<close>.
\<close>

record orderParams =
  symbol :: string
  venue :: venue
  side :: side
  orderType :: orderType
  limit_price :: jsnum
  quantity :: jsnum

record impact =
  avgFillPrice :: jsnum
  slippage :: jsnum
  filledPercentage :: jsnum
  priceImpact :: jsnum

definition zero_impact :: impact where
  "zero_impact = \<lparr>avgFillPrice = Fin 0, slippage = Fin 0, filledPercentage = Fin 0, priceImpact = Fin 0\<rparr>"

text \<open>
  The level walk: the \<open>for (const level of relevantBook)\<close> loop over the state
  \<open>(sizeToFill, totalCost, filledSize)\<close>. \<open>break\<close> returns the state, \<open>continue\<close>
  goes on with the rest of the book.
\<close>

fun walk :: "orderParams \<Rightarrow> level list \<Rightarrow> jsnum \<times> jsnum \<times> jsnum \<Rightarrow> jsnum \<times> jsnum \<times> jsnum" where
  "walk op [] st = st"
| "walk op (lv # rest) (sizeToFill, totalCost, filledSize) =
     (if jle sizeToFill (Fin 0) then (sizeToFill, totalCost, filledSize)
      else
        let levelPrice = price lv;
            levelSizeInBase = (if venue op = DERIBIT then jdiv (size_l lv) levelPrice else size_l lv)
        in if isNaN levelPrice \<or> isNaN levelSizeInBase then walk op rest (sizeToFill, totalCost, filledSize)
           else if side op = Buy \<and> orderType op = Limit \<and> jgt levelPrice (limit_price op)
             then walk op rest (sizeToFill, totalCost, filledSize)
           else if side op = Sell \<and> orderType op = Limit \<and> jlt levelPrice (limit_price op)
             then walk op rest (sizeToFill, totalCost, filledSize)
           else
             let fillableSize = jmin sizeToFill levelSizeInBase
             in walk op rest (jsub sizeToFill fillableSize,
                              jadd totalCost (jmul fillableSize levelPrice),
                              jadd filledSize fillableSize))"

definition calculateMarketImpact :: "orderParams \<Rightarrow> book \<Rightarrow> impact" where
  "calculateMarketImpact op bk =
     (let orderSize = quantity op in
      if isNaN orderSize \<or> jle orderSize (Fin 0) then zero_impact
      else
        let relevantBook = (if side op = Buy then asks bk else bids bk) in
        case relevantBook of
          [] \<Rightarrow> zero_impact
        | best # _ \<Rightarrow>
            let bestPrice = price best in
            if isNaN bestPrice \<or> jle bestPrice (Fin 0) then zero_impact
            else
              (case walk op relevantBook (orderSize, Fin 0, Fin 0) of
                 (sizeToFill, totalCost, filledSize) \<Rightarrow>
                   if jeq filledSize (Fin 0) then zero_impact
                   else
                     let avg = jdiv totalCost filledSize in
                     \<lparr>avgFillPrice = avg,
                      slippage = jmul (jabs (jdiv (jsub avg bestPrice) bestPrice)) (Fin 100),
                      filledPercentage = jmul (jdiv filledSize orderSize) (Fin 100),
                      priceImpact = jabs (jsub avg bestPrice)\<rparr>))"

text \<open>The book of the two concrete scenarios: asks 1 at 100 and 2 at 101.\<close>

definition scenario_book :: book where
  "scenario_book = \<lparr>bids = [], asks = [\<lparr>price = Fin 100, size_l = Fin 1\<rparr>, \<lparr>price = Fin 101, size_l = Fin 2\<rparr>]\<rparr>"

definition buy_market :: "venue \<Rightarrow> real \<Rightarrow> orderParams" where
  "buy_market v q = \<lparr>symbol = ''BTC-USDT'', venue = v, side = Buy, orderType = Market,
                     limit_price = NaN, quantity = Fin q\<rparr>"


section \<open>The order ledger (app/page.js, PageController)\<close>

datatype status = Pending | Untriggered | Filled | Cancelled | Failed

datatype error = TypeError

text \<open>
  The objects stored in \<open>order.result\<close> and \<open>order.exitResult\<close>: a fill result
  \<open>{...result, executedAt}\<close>, an error object \<open>{error: ...}\<close>, or what an object spread
  makes of them. Every field may be absent (\<open>undefined\<close>), so each is an option.
\<close>

record resultObj =
  r_avgFillPrice :: "jsnum option"
  r_slippage :: "jsnum option"
  r_filledPercentage :: "jsnum option"
  r_priceImpact :: "jsnum option"
  r_executedAt :: "real option"
  r_error :: "string option"

definition empty_result :: resultObj where
  "empty_result = \<lparr>r_avgFillPrice = None, r_slippage = None, r_filledPercentage = None,
                    r_priceImpact = None, r_executedAt = None, r_error = None\<rparr>"

text \<open>\<open>{ error: msg }\<close>\<close>

definition error_result :: "string \<Rightarrow> resultObj" where
  "error_result msg = empty_result\<lparr>r_error := Some msg\<rparr>"

text \<open>\<open>{ ...result, executedAt }\<close> for a result of \<open>calculateMarketImpact\<close>\<close>

definition with_executedAt :: "impact \<Rightarrow> real \<Rightarrow> resultObj" where
  "with_executedAt r t =
     \<lparr>r_avgFillPrice = Some (avgFillPrice r), r_slippage = Some (slippage r),
      r_filledPercentage = Some (filledPercentage r), r_priceImpact = Some (priceImpact r),
      r_executedAt = Some t, r_error = None\<rparr>"

text \<open>\<open>{ ...o.result, avgFillPrice: newAvgPrice }\<close>; spreading \<open>null\<close> adds nothing.\<close>

definition spread_avg :: "resultObj option \<Rightarrow> jsnum \<Rightarrow> resultObj" where
  "spread_avg r a = (case r of None \<Rightarrow> empty_result | Some x \<Rightarrow> x)\<lparr>r_avgFillPrice := Some a\<rparr>"

text \<open>
  An order of the ledger \<open>simulatedOrders\<close>. \<open>oid\<close> is the field \<open>id\<close> (a uuid);
  \<open>pnl\<close>, \<open>livePnl\<close>, \<open>exitResult\<close>, \<open>timeToFill\<close> and \<open>positionId\<close> are absent until set;
  \<open>stopLoss\<close> holds the number \<open>parseFloat(order.stopLoss.stopPrice)\<close>, absent when the
  order has no \<open>stopLoss\<close> object. Times are in milliseconds.
\<close>

record order =
  oid :: nat
  params :: orderParams
  status :: status
  createdAt :: real
  result :: "resultObj option"
  pnl :: "jsnum option"
  livePnl :: "jsnum option"
  exitResult :: "resultObj option"
  timeToFill :: "real option"
  positionId :: "nat option"
  stopLoss :: "jsnum option"

text \<open>Truthiness of a field that may be absent: \<open>undefined\<close> is falsy.\<close>

definition truthy_opt :: "jsnum option \<Rightarrow> bool" where
  "truthy_opt x = (case x of None \<Rightarrow> False | Some n \<Rightarrow> truthy n)"

text \<open>\<open>order?.result?.avgFillPrice\<close>: absent when the result or the field is.\<close>

definition entry_price :: "order \<Rightarrow> jsnum option" where
  "entry_price ord = (case result ord of None \<Rightarrow> None | Some r \<Rightarrow> r_avgFillPrice r)"

definition calculatePnl :: "order \<Rightarrow> jsnum \<Rightarrow> jsnum" where
  "calculatePnl ord currentPrice =
     (case entry_price ord of
        None \<Rightarrow> Fin 0
      | Some entryPrice \<Rightarrow>
          if truthy entryPrice \<and> truthy currentPrice
          then (if side (params ord) = Buy
                then jmul (jsub currentPrice entryPrice) (quantity (params ord))
                else jmul (jsub entryPrice currentPrice) (quantity (params ord)))
          else Fin 0)"

text \<open>
  \<open>confirmCancelOrder\<close>, with the state \<open>orderToCancel\<close> (absent when no cancellation is
  awaiting confirmation) and the ledger passed explicitly.
\<close>

definition confirmCancelOrder :: "nat option \<Rightarrow> order list \<Rightarrow> order list" where
  "confirmCancelOrder orderToCancel p =
     (case orderToCancel of
        None \<Rightarrow> p
      | Some c \<Rightarrow> map (\<lambda>ord. if oid ord = c then ord\<lparr>status := Cancelled\<rparr> else ord) p)"

text \<open>
  \<open>scheduleOrderExecution\<close> first puts the new order in front of the ledger
  (\<open>place_order\<close>); after the delay its timer runs \<open>scheduled_execution\<close> on the ledger of
  that moment. \<open>orderBooks\<close> are the books the timer's closure holds. Reading
  \<open>existingPosition.result.avgFillPrice\<close> raises a TypeError when the result is \<open>null\<close>;
  an absent \<open>avgFillPrice\<close> is \<open>undefined\<close>, NaN in the product.
\<close>

definition new_order :: "nat \<Rightarrow> real \<Rightarrow> orderParams \<Rightarrow> order" where
  "new_order newId now ps =
     \<lparr>oid = newId, params = ps, status = Pending, createdAt = now, result = None,
      pnl = None, livePnl = None, exitResult = None, timeToFill = None,
      positionId = None, stopLoss = None\<rparr>"

definition place_order :: "nat \<Rightarrow> real \<Rightarrow> orderParams \<Rightarrow> order list \<Rightarrow> order list" where
  "place_order newId now ps prev = new_order newId now ps # prev"

definition to_number :: "jsnum option \<Rightarrow> jsnum" where
  "to_number x = (case x of None \<Rightarrow> NaN | Some n \<Rightarrow> n)"

definition open_position_like :: "orderParams \<Rightarrow> order \<Rightarrow> bool" where
  "open_position_like ps ord =
     (status ord = Filled \<and> \<not> truthy_opt (pnl ord) \<and> symbol (params ord) = symbol ps \<and>
      side (params ord) = side ps \<and> venue (params ord) = venue ps)"

definition merge_into :: "nat \<Rightarrow> jsnum \<Rightarrow> jsnum \<Rightarrow> order \<Rightarrow> order" where
  "merge_into posId totalQuantity newAvgPrice ord =
     (if oid ord = posId
      then ord\<lparr>params := (params ord)\<lparr>quantity := totalQuantity\<rparr>,
               result := Some (spread_avg (result ord) newAvgPrice)\<rparr>
      else ord)"

definition scheduled_execution ::
    "real \<Rightarrow> nat \<Rightarrow> real \<Rightarrow> orderParams \<Rightarrow> (venue \<Rightarrow> book) \<Rightarrow> order list \<Rightarrow> error + order list" where
  "scheduled_execution now newId newCreatedAt ps orderBooks prevOrders =
     (case find (\<lambda>ord. oid ord = newId) prevOrders of
        None \<Rightarrow> Inr prevOrders
      | Some orderToExecute \<Rightarrow>
          if status orderToExecute \<noteq> Pending then Inr prevOrders
          else
            let executionBook = orderBooks (venue ps) in
            if bids executionBook = [] \<or> asks executionBook = []
            then Inr (map (\<lambda>ord. if oid ord = newId
                                  then ord\<lparr>status := Failed,
                                           result := Some (error_result ''Market data unavailable.'')\<rparr>
                                  else ord) prevOrders)
            else
              let res = calculateMarketImpact ps executionBook in
              if jgt (filledPercentage res) (Fin 0)
              then
                (case find (open_position_like ps) prevOrders of
                   Some existingPosition \<Rightarrow>
                     (case result existingPosition of
                        None \<Rightarrow> Inl TypeError
                      | Some r \<Rightarrow>
                          let oldTotalCost = jmul (to_number (r_avgFillPrice r))
                                                  (quantity (params existingPosition));
                              newTotalCost = jmul (avgFillPrice res) (quantity ps);
                              totalQuantity = jadd (quantity (params existingPosition)) (quantity ps);
                              newAvgPrice = jdiv (jadd oldTotalCost newTotalCost) totalQuantity
                          in Inr (filter (\<lambda>ord. oid ord \<noteq> newId)
                                    (map (merge_into (oid existingPosition) totalQuantity newAvgPrice)
                                       prevOrders)))
                 | None \<Rightarrow>
                     Inr (map (\<lambda>ord. if oid ord = newId
                                      then ord\<lparr>status := Filled,
                                               result := Some (with_executedAt res now),
                                               timeToFill := Some ((now - newCreatedAt) / 1000)\<rparr>
                                      else ord) prevOrders))
              else if orderType ps = Market
              then Inr (map (\<lambda>ord. if oid ord = newId
                                    then ord\<lparr>status := Failed,
                                             result := Some (error_result ''Market order could not be filled.'')\<rparr>
                                    else ord) prevOrders)
              else Inr prevOrders)"

text \<open>
  The handlers \<open>handleClosePosition\<close>, \<open>handleAddQuantity\<close> and \<open>handleAddStopLoss\<close>
  look the order up in the ledger of the last render and update the ledger of the moment;
  here both are the one ledger passed in. \<open>now\<close> stands for \<open>new Date()\<close>.
\<close>

definition opposite :: "side \<Rightarrow> side" where
  "opposite s = (if s = Buy then Sell else Buy)"

definition handleClosePosition ::
    "real \<Rightarrow> (venue \<Rightarrow> book) \<Rightarrow> nat \<Rightarrow> order list \<Rightarrow> order list" where
  "handleClosePosition now orderBooks orderId simulatedOrders =
     (case find (\<lambda>ord. oid ord = orderId) simulatedOrders of
        None \<Rightarrow> simulatedOrders
      | Some orderToClose \<Rightarrow>
          let closeSide = opposite (side (params orderToClose));
              closeParams = (params orderToClose)\<lparr>side := closeSide, orderType := Market\<rparr>;
              bk = orderBooks (venue (params orderToClose))
          in if bids bk \<noteq> [] \<and> asks bk \<noteq> []
             then
               let closeResult = calculateMarketImpact closeParams bk;
                   p = calculatePnl orderToClose (avgFillPrice closeResult)
               in filter (\<lambda>sl. positionId sl \<noteq> Some orderId)
                    (map (\<lambda>ord. if oid ord = orderId
                                 then ord\<lparr>pnl := Some p,
                                          exitResult := Some (with_executedAt closeResult now)\<rparr>
                                 else ord) simulatedOrders)
             else simulatedOrders)"

text \<open>
  \<open>handleAddQuantity\<close>; \<open>additionalQuantity\<close> is the number the modal passes.
\<close>

definition handleAddQuantity ::
    "(venue \<Rightarrow> book) \<Rightarrow> nat \<Rightarrow> jsnum \<Rightarrow> order list \<Rightarrow> error + order list" where
  "handleAddQuantity orderBooks orderId additionalQuantity simulatedOrders =
     (case find (\<lambda>ord. oid ord = orderId) simulatedOrders of
        None \<Rightarrow> Inr simulatedOrders
      | Some orderToModify \<Rightarrow>
          let addParams = (params orderToModify)\<lparr>quantity := additionalQuantity, orderType := Market\<rparr>;
              bk = orderBooks (venue (params orderToModify))
          in if bids bk \<noteq> [] \<and> asks bk \<noteq> []
             then
               (case result orderToModify of
                  None \<Rightarrow> Inl TypeError
                | Some r \<Rightarrow>
                    let addResult = calculateMarketImpact addParams bk;
                        oldTotalCost = jmul (to_number (r_avgFillPrice r))
                                            (quantity (params orderToModify));
                        newTotalCost = jmul (avgFillPrice addResult) additionalQuantity;
                        totalQuantity = jadd (quantity (params orderToModify)) additionalQuantity;
                        newAvgPrice = jdiv (jadd oldTotalCost newTotalCost) totalQuantity
                    in Inr (map (merge_into orderId totalQuantity newAvgPrice) simulatedOrders))
             else Inr simulatedOrders)"

text \<open>
  \<open>handleAddStopLoss\<close>; \<open>stopPrice\<close> is the number \<open>parseFloat\<close> yields on the modal's
  field.
\<close>

definition handleAddStopLoss :: "nat \<Rightarrow> real \<Rightarrow> nat \<Rightarrow> jsnum \<Rightarrow> order list \<Rightarrow> order list" where
  "handleAddStopLoss newId now posId stopPrice simulatedOrders =
     (case find (\<lambda>ord. oid ord = posId) simulatedOrders of
        None \<Rightarrow> simulatedOrders
      | Some position \<Rightarrow>
          simulatedOrders @
            [\<lparr>oid = newId, params = (params position)\<lparr>side := opposite (side (params position))\<rparr>,
              status = Untriggered, createdAt = now, result = None, pnl = None, livePnl = None,
              exitResult = None, timeToFill = None, positionId = Some posId,
              stopLoss = Some stopPrice\<rparr>])"


subsection \<open>The order-evaluation effect\<close>

text \<open>\<open>findIndex\<close>: the index of the first element that satisfies \<open>P\<close>; \<open>-1\<close> is \<open>None\<close>.\<close>

fun findIndex :: "('a \<Rightarrow> bool) \<Rightarrow> 'a list \<Rightarrow> nat option" where
  "findIndex P [] = None"
| "findIndex P (x # xs) = (if P x then Some 0 else map_option Suc (findIndex P xs))"

text \<open>
  \<open>executeTriggeredOrder\<close>. The source assigns to the variable \<open>updatedOrders\<close> of the
  enclosing effect; here the list is passed in and returned beside the boolean result.
\<close>

definition executeTriggeredOrder ::
    "real \<Rightarrow> order \<Rightarrow> book \<Rightarrow> order list \<Rightarrow> bool \<times> order list" where
  "executeTriggeredOrder now orderToExecute bk updatedOrders =
     (let executionParams = (if status orderToExecute = Untriggered
                             then (params orderToExecute)\<lparr>orderType := Market\<rparr>
                             else params orderToExecute);
          res = calculateMarketImpact executionParams bk
      in if jle (filledPercentage res) (Fin 0) then (False, updatedOrders)
         else if status orderToExecute = Untriggered
         then
           let closed =
                 (case findIndex (\<lambda>p. Some (oid p) = positionId orderToExecute) updatedOrders of
                    None \<Rightarrow> updatedOrders
                  | Some i \<Rightarrow>
                      let originalPosition = updatedOrders ! i;
                          p = calculatePnl originalPosition (avgFillPrice res)
                      in updatedOrders[i := originalPosition\<lparr>pnl := Some p,
                                              exitResult := Some (with_executedAt res now)\<rparr>])
           in (True, filter (\<lambda>ord. oid ord \<noteq> oid orderToExecute) closed)
         else
           (True,
            case findIndex (\<lambda>ord. oid ord = oid orderToExecute) updatedOrders of
              None \<Rightarrow> updatedOrders
            | Some i \<Rightarrow>
                updatedOrders[i := (updatedOrders ! i)\<lparr>status := Filled,
                                      result := Some (with_executedAt res now),
                                      timeToFill := Some ((now - createdAt orderToExecute) / 1000)\<rparr>]))"

text \<open>
  What the effect fixes before its loop: the viewed symbol, the book of the selected
  exchange, its best bid and ask, and the mid-price.
\<close>

record evalCtx =
  ctx_now :: real
  ctx_symbol :: string
  currentBook :: book
  bestBid :: jsnum
  bestAsk :: jsnum
  midPrice :: jsnum

text \<open>\<open>updatedOrders[orderIndex].livePnl = v\<close> at the first order with the given id.\<close>

definition set_livePnl :: "nat \<Rightarrow> jsnum \<Rightarrow> order list \<times> bool \<Rightarrow> order list \<times> bool" where
  "set_livePnl i v st =
     (case findIndex (\<lambda>ord. oid ord = i) (fst st) of
        None \<Rightarrow> st
      | Some k \<Rightarrow> ((fst st)[k := ((fst st) ! k)\<lparr>livePnl := Some v\<rparr>], True))"

text \<open>\<open>order.livePnl !== newLivePnl\<close>: an absent field differs from every number.\<close>

definition livePnl_differs :: "jsnum option \<Rightarrow> jsnum \<Rightarrow> bool" where
  "livePnl_differs old v = (case old of None \<Rightarrow> True | Some x \<Rightarrow> \<not> jeq x v)"

text \<open>
  The test that sets \<open>conditionMet\<close>. Reading \<open>order.stopLoss.stopPrice\<close> of an
  Untriggered order without a \<open>stopLoss\<close> raises a TypeError.
\<close>

definition conditionMet :: "evalCtx \<Rightarrow> order \<Rightarrow> error + bool" where
  "conditionMet ctx ord =
     (if status ord = Pending \<and> orderType (params ord) = Limit
      then
        let limitPrice = limit_price (params ord) in
        Inr ((side (params ord) = Buy \<and> jge limitPrice (bestAsk ctx)) \<or>
             (side (params ord) = Sell \<and> jle limitPrice (bestBid ctx)))
      else if status ord = Untriggered
      then
        (case stopLoss ord of
           None \<Rightarrow> Inl TypeError
         | Some stopPrice \<Rightarrow>
             Inr ((side (params ord) = Sell \<and> jle (midPrice ctx) stopPrice) \<or>
                  (side (params ord) = Buy \<and> jge (midPrice ctx) stopPrice)))
      else Inr False)"

text \<open>
  The block of the loop body that refreshes the live PnL of an open position.
\<close>

definition refresh_livePnl :: "evalCtx \<Rightarrow> order \<Rightarrow> order list \<times> bool \<Rightarrow> order list \<times> bool" where
  "refresh_livePnl ctx ord st =
     (if status ord = Filled \<and> \<not> truthy_opt (pnl ord)
      then
        let newLivePnl = calculatePnl ord (midPrice ctx) in
        if livePnl_differs (livePnl ord) newLivePnl
        then set_livePnl (oid ord) newLivePnl st else st
      else st)"

text \<open>
  The body of \<open>ordersToProcess.forEach\<close>, on the state \<open>(updatedOrders,
  ordersHaveChanged)\<close>. \<open>ord\<close> is the order as it was when the loop began. The source
  assigns \<open>livePnl\<close> in place, to the object that \<open>updatedOrders\<close> holds under the id
  of \<open>ord\<close>; the model updates the list, and nothing later in the loop reads the
  \<open>livePnl\<close> of an order that is still to be processed from another place.
\<close>

definition processOrder ::
    "evalCtx \<Rightarrow> order \<Rightarrow> order list \<times> bool \<Rightarrow> error + order list \<times> bool" where
  "processOrder ctx ord st =
     (if symbol (params ord) \<noteq> ctx_symbol ctx
      then Inr (if truthy_opt (livePnl ord) then set_livePnl (oid ord) (Fin 0) st else st)
      else
        let st1 = refresh_livePnl ctx ord st
        in case conditionMet ctx ord of
             Inl e \<Rightarrow> Inl e
           | Inr c \<Rightarrow>
               if c
               then
                 let executed = executeTriggeredOrder (ctx_now ctx) ord (currentBook ctx) (fst st1)
                 in Inr (snd executed, snd st1 \<or> fst executed)
               else Inr st1)"

fun processAll ::
    "evalCtx \<Rightarrow> order list \<Rightarrow> order list \<times> bool \<Rightarrow> error + order list \<times> bool" where
  "processAll ctx [] st = Inr st"
| "processAll ctx (ord # rest) st =
     (case processOrder ctx ord st of
        Inl e \<Rightarrow> Inl e
      | Inr st' \<Rightarrow> processAll ctx rest st')"

definition needs_processing :: "order \<Rightarrow> bool" where
  "needs_processing ord =
     (status ord = Pending \<or> status ord = Untriggered \<or>
      (status ord = Filled \<and> \<not> truthy_opt (pnl ord)))"

text \<open>\<open>currentBook?.bids[0]?.price\<close>: absent on an empty side.\<close>

definition best_price :: "level list \<Rightarrow> jsnum option" where
  "best_price lvs = (case lvs of [] \<Rightarrow> None | lv # _ \<Rightarrow> Some (price lv))"

text \<open>The values the effect computes before the loop, from the book of the selected exchange.\<close>

definition effect_ctx :: "real \<Rightarrow> string \<Rightarrow> book \<Rightarrow> jsnum \<Rightarrow> jsnum \<Rightarrow> evalCtx" where
  "effect_ctx now viewed bk bb ba =
     \<lparr>ctx_now = now, ctx_symbol = viewed, currentBook = bk, bestBid = bb, bestAsk = ba,
      midPrice = jdiv (jadd bb ba) (Fin 2)\<rparr>"

text \<open>
  The effect that runs on every change of the books or of the ledger. It returns the
  ledger it commits; when it returns early or nothing changed, that is the ledger it
  was given. \<open>now\<close> stands for the \<open>new Date()\<close> of the run.
\<close>

definition order_effect ::
    "real \<Rightarrow> string \<Rightarrow> (venue \<Rightarrow> book) \<Rightarrow> venue \<Rightarrow> order list \<Rightarrow> error + order list" where
  "order_effect now viewed orderBooks selectedExchange simulatedOrders =
     (let bk = orderBooks selectedExchange in
      case best_price (bids bk) of
        None \<Rightarrow> Inr simulatedOrders
      | Some bb \<Rightarrow>
          (case best_price (asks bk) of
             None \<Rightarrow> Inr simulatedOrders
           | Some ba \<Rightarrow>
               if truthy bb \<and> truthy ba \<and> truthy (midPrice (effect_ctx now viewed bk bb ba))
               then
                 (case processAll (effect_ctx now viewed bk bb ba)
                         (filter needs_processing simulatedOrders) (simulatedOrders, False) of
                    Inl e \<Rightarrow> Inl e
                  | Inr st \<Rightarrow> Inr (if snd st then fst st else simulatedOrders))
               else Inr simulatedOrders))"

text \<open>The effect run once per book update, the ledger passed from one run to the next.\<close>

record tick =
  t_now :: real
  t_symbol :: string
  t_books :: "venue \<Rightarrow> book"
  t_exchange :: venue

fun run_effects :: "tick list \<Rightarrow> order list \<Rightarrow> error + order list" where
  "run_effects [] ledger = Inr ledger"
| "run_effects (t # ts) ledger =
     (case order_effect (t_now t) (t_symbol t) (t_books t) (t_exchange t) ledger of
        Inl e \<Rightarrow> Inl e
      | Inr ledger' \<Rightarrow> run_effects ts ledger')"


section \<open>The book store (hooks/useOrderBook.js)\<close>

text \<open>
  The values of a feed message that reach the book: strings, numbers, and \<open>undefined\<close>
  for a missing array element.
\<close>

datatype jsval = JUndefined | JStr string | JNum jsnum

subsection \<open>The builtin \<open>parseFloat\<close>\<close>

text \<open>
  \<open>parseFloat\<close> is a builtin of the language, modelled here after its definition in
  ECMAScript: leading white space is skipped (the ASCII white space characters only), then
  the longest prefix that is a decimal literal is read (a sign, \<open>Infinity\<close> or digits
  with an optional fraction and an optional exponent), and what follows is ignored; NaN
  when there is no such prefix. The value is exact. A number is returned as it is.
\<close>

definition is_digit :: "char \<Rightarrow> bool" where
  "is_digit c = (c \<in> set ''0123456789'')"

definition is_space :: "char \<Rightarrow> bool" where
  "is_space c = (c \<in> set [CHR '' '', CHR 0x09, CHR 0x0A, CHR 0x0B, CHR 0x0C, CHR 0x0D])"

definition digit_val :: "char \<Rightarrow> nat" where
  "digit_val c = of_char c - 48"

definition digits_val :: "string \<Rightarrow> nat" where
  "digits_val ds = foldl (\<lambda>a c. 10 * a + digit_val c) 0 ds"

text \<open>The exponent part; \<open>0\<close> when what follows the mantissa is not a well-formed one.\<close>

definition exponent_digits :: "string \<Rightarrow> int" where
  "exponent_digits ds = int (digits_val (takeWhile is_digit ds))"

definition parse_exponent :: "string \<Rightarrow> int" where
  "parse_exponent s =
     (case s of
        [] \<Rightarrow> 0
      | c # r \<Rightarrow>
          if c = CHR ''e'' \<or> c = CHR ''E''
          then (case r of
                  [] \<Rightarrow> 0
                | d # r' \<Rightarrow>
                    if d = CHR ''+'' then exponent_digits r'
                    else if d = CHR ''-'' then - exponent_digits r'
                    else exponent_digits r)
          else 0)"

definition scale10 :: "real \<Rightarrow> int \<Rightarrow> real" where
  "scale10 m e = (if 0 \<le> e then m * 10 ^ nat e else m / 10 ^ nat (- e))"

definition parse_unsigned :: "string \<Rightarrow> jsnum" where
  "parse_unsigned s =
     (if take 8 s = ''Infinity'' then PInf
      else
        let ip = takeWhile is_digit s;
            r1 = dropWhile is_digit s;
            fp = (case r1 of [] \<Rightarrow> [] | c # r \<Rightarrow> if c = CHR ''.'' then takeWhile is_digit r else []);
            r2 = (case r1 of [] \<Rightarrow> [] | c # r \<Rightarrow> if c = CHR ''.'' then dropWhile is_digit r else r1)
        in if ip = [] \<and> fp = [] then NaN
           else Fin (scale10 (real (digits_val (ip @ fp)) / 10 ^ length fp) (parse_exponent r2)))"

definition parse_decimal :: "string \<Rightarrow> jsnum" where
  "parse_decimal s =
     (case dropWhile is_space s of
        [] \<Rightarrow> NaN
      | c # r \<Rightarrow>
          if c = CHR ''-'' then jneg (parse_unsigned r)
          else if c = CHR ''+'' then parse_unsigned r
          else parse_unsigned (c # r))"

fun parseFloat :: "jsval \<Rightarrow> jsnum" where
  "parseFloat JUndefined = NaN"
| "parseFloat (JNum n) = n"
| "parseFloat (JStr s) = parse_decimal s"

subsection \<open>The price to size maps\<close>

text \<open>
  A \<open>Map\<close> keeps its entries in the order in which their keys were first set: a list of
  pairs with one pair per key. Keys are compared as the \<open>Map\<close> does: a string with a
  string, a number with a number, never a string with a number.
\<close>

type_synonym jsmap = "(jsval \<times> jsval) list"

fun map_set :: "jsval \<Rightarrow> jsval \<Rightarrow> jsmap \<Rightarrow> jsmap" where
  "map_set k v [] = [(k, v)]"
| "map_set k v ((k', v') # m) = (if k' = k then (k, v) # m else (k', v') # map_set k v m)"

definition map_delete :: "jsval \<Rightarrow> jsmap \<Rightarrow> jsmap" where
  "map_delete k m = filter (\<lambda>e. fst e \<noteq> k) m"

text \<open>An element of an array, \<open>undefined\<close> beyond its end; \<open>[p, s]\<close> takes the first two.\<close>

definition element :: "jsval list \<Rightarrow> nat \<Rightarrow> jsval" where
  "element a i = (if i < length a then a ! i else JUndefined)"

text \<open>\<open>new Map(entries)\<close> and \<open>entries.forEach(([p, s]) => map.set(p, s))\<close>\<close>

definition set_all :: "jsval list list \<Rightarrow> jsmap \<Rightarrow> jsmap" where
  "set_all entries m = foldl (\<lambda>acc e. map_set (element e 0) (element e 1) acc) m entries"

definition new_Map :: "jsval list list \<Rightarrow> jsmap" where
  "new_Map entries = set_all entries []"

text \<open>The delta of OKX and Bybit: a size that parses to \<open>0\<close> deletes the level.\<close>

definition delta_entry :: "jsval list \<Rightarrow> jsmap \<Rightarrow> jsmap" where
  "delta_entry e m =
     (if jeq (parseFloat (element e 1)) (Fin 0) then map_delete (element e 0) m
      else map_set (element e 0) (element e 1) m)"

definition apply_delta :: "jsval list list \<Rightarrow> jsmap \<Rightarrow> jsmap" where
  "apply_delta entries m = foldl (\<lambda>acc e. delta_entry e acc) m entries"

text \<open>
  \<open>updateBook\<close>, the delta of Deribit: entries \<open>[type, price, size]\<close>; an entry that has
  not three elements is passed over.
\<close>

definition updateBook_entry :: "jsval list \<Rightarrow> jsmap \<Rightarrow> jsmap" where
  "updateBook_entry d m =
     (if length d \<noteq> 3 then m
      else if element d 0 = JStr ''delete'' \<or> element d 2 = JNum (Fin 0)
      then map_delete (element d 1) m
      else map_set (element d 1) (element d 2) m)"

definition updateBook :: "jsval list list \<Rightarrow> jsmap \<Rightarrow> jsmap" where
  "updateBook deltas m = foldl (\<lambda>acc d. updateBook_entry d acc) m deltas"

record bookRef =
  ref_bids :: jsmap
  ref_asks :: jsmap

text \<open>
  A message that carries book data, after \<open>JSON.parse\<close>: whether it is a snapshot, and
  the arrays of bid and ask entries. Every other message leaves the book as it is.
\<close>

datatype message = BookData bool "jsval list list" "jsval list list" | Other

definition apply_message :: "venue \<Rightarrow> bool \<Rightarrow> jsval list list \<Rightarrow> jsval list list \<Rightarrow> bookRef \<Rightarrow> bookRef" where
  "apply_message v isSnapshot bidsDelta asksDelta r =
     (if v = DERIBIT
      then (if isSnapshot
            then \<lparr>ref_bids = set_all bidsDelta [], ref_asks = set_all asksDelta []\<rparr>
            else \<lparr>ref_bids = updateBook bidsDelta (ref_bids r),
                  ref_asks = updateBook asksDelta (ref_asks r)\<rparr>)
      else (if isSnapshot
            then \<lparr>ref_bids = new_Map bidsDelta, ref_asks = new_Map asksDelta\<rparr>
            else \<lparr>ref_bids = apply_delta bidsDelta (ref_bids r),
                  ref_asks = apply_delta asksDelta (ref_asks r)\<rparr>))"

text \<open>
  \<open>updateUI\<close>: the entries of a map as levels, those with a NaN price or size left
  out, sorted by price. \<open>sort\<close> is stable, and so is \<open>sort_key\<close>; the comparators
  \<open>b.price - a.price\<close> and \<open>a.price - b.price\<close> order numbers that are not NaN as
  \<open>jkey\<close> does, downwards and upwards. (The price history that \<open>updateUI\<close> also
  extends is not part of the book.)
\<close>

definition to_level :: "jsval \<times> jsval \<Rightarrow> level" where
  "to_level e = \<lparr>price = parseFloat (fst e), size_l = parseFloat (snd e)\<rparr>"

definition numeric :: "level \<Rightarrow> bool" where
  "numeric lv = (\<not> isNaN (price lv) \<and> \<not> isNaN (size_l lv))"

definition down_key :: "level \<Rightarrow> int \<times> real" where
  "down_key lv = (- fst (jkey (price lv)), - snd (jkey (price lv)))"

definition up_key :: "level \<Rightarrow> int \<times> real" where
  "up_key lv = jkey (price lv)"

definition updateUI :: "bookRef \<Rightarrow> book" where
  "updateUI r =
     \<lparr>bids = sort_key down_key (filter numeric (map to_level (ref_bids r))),
      asks = sort_key up_key (filter numeric (map to_level (ref_asks r)))\<rparr>"

text \<open>
  The state of the hook: \<open>bookRefs\<close> and the \<open>orderBooks\<close> it exposes;
  \<open>ws.onmessage\<close> of the connection to venue \<open>v\<close>.
\<close>

record feed =
  bookRefs :: "venue \<Rightarrow> bookRef"
  orderBooks :: "venue \<Rightarrow> book"

definition initial_feed :: feed where
  "initial_feed = \<lparr>bookRefs = (\<lambda>_. \<lparr>ref_bids = [], ref_asks = []\<rparr>),
                   orderBooks = (\<lambda>_. \<lparr>bids = [], asks = []\<rparr>)\<rparr>"

definition onmessage :: "venue \<Rightarrow> message \<Rightarrow> feed \<Rightarrow> feed" where
  "onmessage v msg f =
     (case msg of
        Other \<Rightarrow> f
      | BookData isSnapshot bidsDelta asksDelta \<Rightarrow>
          let r = apply_message v isSnapshot bidsDelta asksDelta (bookRefs f v)
          in \<lparr>bookRefs = (bookRefs f)(v := r), orderBooks = (orderBooks f)(v := updateUI r)\<rparr>)"

text \<open>The messages of all connections, in the order of their arrival.\<close>

fun receive :: "(venue \<times> message) list \<Rightarrow> feed \<Rightarrow> feed" where
  "receive [] f = f"
| "receive ((v, msg) # rest) f = receive rest (onmessage v msg f)"


section \<open>The properties, in the words of the specification\<close>

text \<open>A level crosses the limit of a Limit order: its price is above a Buy limit, below a Sell limit.\<close>

definition crosses :: "orderParams \<Rightarrow> level \<Rightarrow> bool" where
  "crosses op lv =
     ((side op = Buy \<and> orderType op = Limit \<and> jgt (price lv) (limit_price op)) \<or>
      (side op = Sell \<and> orderType op = Limit \<and> jlt (price lv) (limit_price op)))"

text \<open>
  The level walk as the specification words it: consuming stops at the first level that
  crosses the limit. It differs from \<open>walk\<close> in that one branch only.
\<close>

fun walk_stop :: "orderParams \<Rightarrow> level list \<Rightarrow> jsnum \<times> jsnum \<times> jsnum \<Rightarrow> jsnum \<times> jsnum \<times> jsnum" where
  "walk_stop op [] st = st"
| "walk_stop op (lv # rest) (sizeToFill, totalCost, filledSize) =
     (if jle sizeToFill (Fin 0) then (sizeToFill, totalCost, filledSize)
      else
        let levelPrice = price lv;
            levelSizeInBase = (if venue op = DERIBIT then jdiv (size_l lv) levelPrice else size_l lv)
        in if isNaN levelPrice \<or> isNaN levelSizeInBase then walk_stop op rest (sizeToFill, totalCost, filledSize)
           else if crosses op lv then (sizeToFill, totalCost, filledSize)
           else
             let fillableSize = jmin sizeToFill levelSizeInBase
             in walk_stop op rest (jsub sizeToFill fillableSize,
                                   jadd totalCost (jmul fillableSize levelPrice),
                                   jadd filledSize fillableSize))"

definition descending :: "level list \<Rightarrow> bool" where
  "descending lvs = sorted_wrt (\<lambda>a b. jge (price a) (price b)) lvs"

definition ascending :: "level list \<Rightarrow> bool" where
  "ascending lvs = sorted_wrt (\<lambda>a b. jle (price a) (price b)) lvs"

definition strictly_descending :: "level list \<Rightarrow> bool" where
  "strictly_descending lvs = sorted_wrt (\<lambda>a b. jgt (price a) (price b)) lvs"

definition strictly_ascending :: "level list \<Rightarrow> bool" where
  "strictly_ascending lvs = sorted_wrt (\<lambda>a b. jlt (price a) (price b)) lvs"

text \<open>The side of the book an order walks, and the order the walk expects it in.\<close>

definition relevantBook :: "orderParams \<Rightarrow> book \<Rightarrow> level list" where
  "relevantBook op bk = (if side op = Buy then asks bk else bids bk)"

definition natural_order :: "orderParams \<Rightarrow> level list \<Rightarrow> bool" where
  "natural_order op lvs = (if side op = Buy then ascending lvs else descending lvs)"

text \<open>
  The book invariant of the specification: bids strictly descending, asks strictly
  ascending (so no price twice on a side), every size above zero.
\<close>

definition book_invariant :: "book \<Rightarrow> bool" where
  "book_invariant bk =
     (strictly_descending (bids bk) \<and> strictly_ascending (asks bk) \<and>
      list_all (\<lambda>lv. jgt (size_l lv) (Fin 0)) (bids bk @ asks bk))"

definition keys_distinct :: "jsmap \<Rightarrow> bool" where
  "keys_distinct m = distinct (map fst m)"

text \<open>No size of the map parses to zero.\<close>

definition no_zero :: "jsmap \<Rightarrow> bool" where
  "no_zero m = list_all (\<lambda>e. \<not> jeq (parseFloat (snd e)) (Fin 0)) m"

text \<open>The state of the hook is consistent: one entry per key, and the exposed books are
  those \<open>updateUI\<close> builds from the maps.\<close>

definition feed_ok :: "feed \<Rightarrow> bool" where
  "feed_ok f =
     (\<forall>v. keys_distinct (ref_bids (bookRefs f v)) \<and> keys_distinct (ref_asks (bookRefs f v)) \<and>
          orderBooks f v = updateUI (bookRefs f v))"

text \<open>Marketability of a limit order, and the trigger of a stop.\<close>

definition marketable :: "side \<Rightarrow> jsnum \<Rightarrow> jsnum \<Rightarrow> jsnum \<Rightarrow> bool" where
  "marketable s limitPrice bid ask =
     (case s of Buy \<Rightarrow> jge limitPrice ask | Sell \<Rightarrow> jle limitPrice bid)"

definition marketable_in :: "book \<Rightarrow> order \<Rightarrow> bool" where
  "marketable_in bk ord =
     (case best_price (bids bk) of
        None \<Rightarrow> False
      | Some bb \<Rightarrow>
          (case best_price (asks bk) of
             None \<Rightarrow> False
           | Some ba \<Rightarrow> marketable (side (params ord)) (limit_price (params ord)) bb ba))"

definition stop_triggers :: "side \<Rightarrow> jsnum \<Rightarrow> jsnum \<Rightarrow> bool" where
  "stop_triggers s mid stopPrice =
     (case s of Sell \<Rightarrow> jle mid stopPrice | Buy \<Rightarrow> jge mid stopPrice)"

text \<open>The formula of the profit and loss, on reals.\<close>

definition pnl_formula :: "side \<Rightarrow> real \<Rightarrow> real \<Rightarrow> real \<Rightarrow> real" where
  "pnl_formula s referencePrice entryPrice q =
     (case s of Buy \<Rightarrow> (referencePrice - entryPrice) * q
              | Sell \<Rightarrow> (entryPrice - referencePrice) * q)"


section \<open>Sample books and orders\<close>

definition two_sided_book :: book where
  "two_sided_book = \<lparr>bids = [\<lparr>price = Fin 99, size_l = Fin 1\<rparr>],
                     asks = [\<lparr>price = Fin 100, size_l = Fin 1\<rparr>, \<lparr>price = Fin 101, size_l = Fin 2\<rparr>]\<rparr>"

definition book_at :: "real \<Rightarrow> real \<Rightarrow> book" where
  "book_at bid ask = \<lparr>bids = [\<lparr>price = Fin bid, size_l = Fin 5\<rparr>],
                      asks = [\<lparr>price = Fin ask, size_l = Fin 5\<rparr>]\<rparr>"

definition filled_result :: "real \<Rightarrow> resultObj" where
  "filled_result entry = with_executedAt \<lparr>avgFillPrice = Fin entry, slippage = Fin 0,
                                         filledPercentage = Fin 100, priceImpact = Fin 0\<rparr> 0"

text \<open>An open position on OKX: a filled order of quantity \<open>q\<close> entered at \<open>entry\<close>.\<close>

definition position :: "nat \<Rightarrow> side \<Rightarrow> real \<Rightarrow> real \<Rightarrow> order" where
  "position i s q entry =
     (new_order i 0 ((buy_market OKX q)\<lparr>side := s\<rparr>))
       \<lparr>status := Filled, result := Some (filled_result entry), timeToFill := Some 0\<rparr>"

definition sell_limit :: "real \<Rightarrow> real \<Rightarrow> orderParams" where
  "sell_limit q p = (buy_market OKX q)\<lparr>side := Sell, orderType := Limit, limit_price := Fin p\<rparr>"

text \<open>A stop order as \<open>handleAddStopLoss\<close> makes it for the position \<open>posId\<close>.\<close>

definition stop_order :: "nat \<Rightarrow> nat \<Rightarrow> side \<Rightarrow> real \<Rightarrow> real \<Rightarrow> order" where
  "stop_order i posId s q stopPrice =
     (new_order i 0 ((buy_market OKX q)\<lparr>side := s\<rparr>))
       \<lparr>status := Untriggered, positionId := Some posId, stopLoss := Some (Fin stopPrice)\<rparr>"

text \<open>A book whose best bid has size zero, as a snapshot may carry it.\<close>

definition zero_size_bids :: book where
  "zero_size_bids = \<lparr>bids = [\<lparr>price = Fin 99, size_l = Fin 0\<rparr>],
                     asks = [\<lparr>price = Fin 100, size_l = Fin 1\<rparr>]\<rparr>"

text \<open>An order as it is when held on another venue.\<close>

definition on_venue :: "venue \<Rightarrow> order \<Rightarrow> order" where
  "on_venue v ord = ord\<lparr>params := (params ord)\<lparr>venue := v\<rparr>\<rparr>"

text \<open>The books of the hook when OKX quotes one book and the other venues another.\<close>

definition two_books :: "book \<Rightarrow> book \<Rightarrow> venue \<Rightarrow> book" where
  "two_books okx others v = (if v = OKX then okx else others)"

text \<open>
  Three book updates. OKX has its best bid at 103 throughout; the best bid of Bybit
  stays below 102. Bybit is the selected exchange at the first two, OKX at the third.
\<close>

definition switching_ticks :: "tick list" where
  "switching_ticks =
     [\<lparr>t_now = 1, t_symbol = ''BTC-USDT'',
       t_books = two_books (book_at 103 104) (book_at 99 100), t_exchange = BYBIT\<rparr>,
      \<lparr>t_now = 2, t_symbol = ''BTC-USDT'',
       t_books = two_books (book_at 103 104) (book_at 98 99), t_exchange = BYBIT\<rparr>,
      \<lparr>t_now = 3, t_symbol = ''BTC-USDT'',
       t_books = two_books (book_at 103 104) (book_at 99 100), t_exchange = OKX\<rparr>]"

text \<open>A snapshot and a delta of OKX; a snapshot of Bybit with malformed entries.\<close>

definition sample_messages :: "(venue \<times> message) list" where
  "sample_messages =
     [(OKX, BookData True [ [JStr ''100'', JStr ''1'', JStr ''0'', JStr ''3''],
                            [JStr ''101'', JStr ''2'', JStr ''0'', JStr ''1''] ]
                           [ [JStr ''102'', JStr ''3'', JStr ''0'', JStr ''2''] ]),
      (OKX, BookData False [ [JStr ''100'', JStr ''0'', JStr ''0'', JStr ''0''],
                             [JStr ''99.5'', JStr ''4'', JStr ''0'', JStr ''1''] ] [])]"

definition malformed_messages :: "(venue \<times> message) list" where
  "malformed_messages =
     [(BYBIT, BookData True [ [JStr ''abc'', JStr ''1''], [JStr ''100'', JStr ''''], [JStr ''99'', JStr ''2''] ]
                            [ [JStr ''101''] ])]"


section \<open>Facts about the numbers\<close>

lemma jlt_Fin [simp]: "jlt (Fin a) (Fin b) = (a < b)"
  by (simp add: jlt_def)

lemma jle_Fin [simp]: "jle (Fin a) (Fin b) = (a \<le> b)"
  by (simp add: jle_def)

lemma jgt_Fin [simp]: "jgt (Fin a) (Fin b) = (b < a)"
  by (simp add: jgt_def)

lemma jge_Fin [simp]: "jge (Fin a) (Fin b) = (b \<le> a)"
  by (simp add: jge_def)

lemma jeq_Fin [simp]: "jeq (Fin a) (Fin b) = (a = b)"
  by (simp add: jeq_def)

lemma jsub_Fin [simp]: "jsub (Fin a) (Fin b) = Fin (a - b)"
  by (simp add: jsub_def)

lemma jmin_Fin [simp]: "jmin (Fin a) (Fin b) = Fin (min a b)"
  by (simp add: jmin_def min_def)

lemma jlt_NaN [simp]: "jlt NaN b = False" "jlt a NaN = False"
  by (simp_all add: jlt_def)

lemma jle_NaN [simp]: "jle NaN b = False" "jle a NaN = False"
  by (simp_all add: jle_def)

lemma jgt_NaN [simp]: "jgt NaN b = False" "jgt a NaN = False"
  by (simp_all add: jgt_def)

lemma jge_NaN [simp]: "jge NaN b = False" "jge a NaN = False"
  by (simp_all add: jge_def)


section \<open>The two concrete scenarios\<close>

text \<open>
  C1. On a venue whose sizes are base quantities (OKX, BYBIT), against asks 1 at 100 and
  2 at 101: a Buy Market order of quantity 2 returns average fill price 100.5, filled
  percentage 100, slippage 0.5 and price impact 0.5; a Buy Market order of quantity 5
  fills 3 and leaves 2 unfilled (the final state of the level walk), and returns filled
  percentage 60. The function is total: it returns a result and raises nothing.
\<close>

theorem C1_concrete_scenarios:
  "calculateMarketImpact (buy_market OKX 2) scenario_book =
     \<lparr>avgFillPrice = Fin 100.5, slippage = Fin 0.5, filledPercentage = Fin 100, priceImpact = Fin 0.5\<rparr>
   \<and> calculateMarketImpact (buy_market BYBIT 2) scenario_book =
     \<lparr>avgFillPrice = Fin 100.5, slippage = Fin 0.5, filledPercentage = Fin 100, priceImpact = Fin 0.5\<rparr>
   \<and> walk (buy_market OKX 5) (asks scenario_book) (Fin 5, Fin 0, Fin 0) = (Fin 2, Fin 302, Fin 3)
   \<and> filledPercentage (calculateMarketImpact (buy_market OKX 5) scenario_book) = Fin 60
   \<and> filledPercentage (calculateMarketImpact (buy_market BYBIT 5) scenario_book) = Fin 60"
  by (simp add: calculateMarketImpact_def scenario_book_def buy_market_def)


section \<open>Evaluation of concrete inputs\<close>

lemmas number_eval = parse_decimal_def parse_unsigned_def is_digit_def is_space_def digits_val_def
  digit_val_def parse_exponent_def exponent_digits_def scale10_def

lemmas feed_eval = onmessage_def initial_feed_def apply_message_def updateUI_def new_Map_def
  set_all_def apply_delta_def delta_entry_def map_delete_def element_def to_level_def numeric_def
  down_key_def up_key_def

lemmas ledger_eval = place_order_def new_order_def position_def buy_market_def sell_limit_def
  filled_result_def with_executedAt_def spread_avg_def to_number_def truthy_opt_def
  open_position_like_def merge_into_def opposite_def entry_price_def empty_result_def error_result_def

lemmas effect_eval = order_effect_def effect_ctx_def best_price_def needs_processing_def
  processOrder_def refresh_livePnl_def set_livePnl_def livePnl_differs_def conditionMet_def
  executeTriggeredOrder_def calculatePnl_def calculateMarketImpact_def stop_order_def book_at_def


section \<open>The level walk of a Limit order\<close>

lemma walk_Cons:
  "walk op (lv # rest) (s, t, f) =
     (if jle s (Fin 0) then (s, t, f)
      else
        let levelSizeInBase = (if venue op = DERIBIT then jdiv (size_l lv) (price lv) else size_l lv)
        in if isNaN (price lv) \<or> isNaN levelSizeInBase \<or> crosses op lv then walk op rest (s, t, f)
           else walk op rest (jsub s (jmin s levelSizeInBase),
                              jadd t (jmul (jmin s levelSizeInBase) (price lv)),
                              jadd f (jmin s levelSizeInBase)))"
  by (simp add: crosses_def Let_def)

lemma walk_stop_Cons:
  "walk_stop op (lv # rest) (s, t, f) =
     (if jle s (Fin 0) then (s, t, f)
      else
        let levelSizeInBase = (if venue op = DERIBIT then jdiv (size_l lv) (price lv) else size_l lv)
        in if isNaN (price lv) \<or> isNaN levelSizeInBase then walk_stop op rest (s, t, f)
           else if crosses op lv then (s, t, f)
           else walk_stop op rest (jsub s (jmin s levelSizeInBase),
                              jadd t (jmul (jmin s levelSizeInBase) (price lv)),
                              jadd f (jmin s levelSizeInBase)))"
  by (simp add: Let_def)

lemma walk_all_cross: "\<forall>lv \<in> set lvs. crosses op lv \<Longrightarrow> walk op lvs st = st"
proof (induction lvs arbitrary: st)
  case Nil then show ?case by simp
next
  case (Cons lv lvs)
  obtain s t f where st: "st = (s, t, f)" by (cases st)
  from Cons.prems have rest: "\<forall>lv \<in> set lvs. crosses op lv" and c: "crosses op lv" by simp_all
  show ?case unfolding st walk_Cons using Cons.IH[OF rest] c by (simp add: Let_def)
qed

lemma crosses_later:
  assumes "natural_order op (lv # lvs)" "crosses op lv" "b \<in> set lvs"
  shows "crosses op b"
  using assms
  by (auto simp: natural_order_def ascending_def descending_def crosses_def jgt_def jlt_def jle_def jge_def split: if_splits)

lemma natural_order_tl: "natural_order op (lv # lvs) \<Longrightarrow> natural_order op lvs"
  by (simp add: natural_order_def ascending_def descending_def split: if_splits)

lemma walk_eq_stop: "natural_order op lvs \<Longrightarrow> walk op lvs st = walk_stop op lvs st"
proof (induction lvs arbitrary: st)
  case Nil then show ?case by simp
next
  case (Cons lv lvs)
  obtain s t f where st: "st = (s, t, f)" by (cases st)
  have no: "natural_order op lvs" using Cons.prems by (rule natural_order_tl)
  note IH = Cons.IH[OF no]
  show ?case
  proof (cases "crosses op lv")
    case True
    then have "\<forall>b \<in> set lvs. crosses op b"
      using crosses_later[OF Cons.prems True] by blast
    then have "walk op lvs (s, t, f) = (s, t, f)" by (rule walk_all_cross)
    with True IH[of "(s, t, f)"] show ?thesis unfolding st walk_Cons walk_stop_Cons
      by (simp add: Let_def)
  next
    case False
    then show ?thesis unfolding st walk_Cons walk_stop_Cons using IH by (simp add: Let_def)
  qed
qed

lemma walk_filter: "walk op (filter (\<lambda>lv. \<not> crosses op lv) lvs) st = walk op lvs st"
proof (induction lvs arbitrary: st)
  case Nil then show ?case by simp
next
  case (Cons lv lvs)
  obtain s t f where st: "st = (s, t, f)" by (cases st)
  show ?case
  proof (cases "crosses op lv")
    case True
    have "walk op lvs (s, t, f) = (s, t, f)" if "jle s (Fin 0)"
      using that by (cases lvs) simp_all
    with True show ?thesis unfolding st using Cons.IH[of "(s, t, f)"]
      by (simp add: walk_Cons Let_def del: walk.simps(2))
  next
    case False
    then show ?thesis unfolding st using Cons.IH
      by (simp add: walk_Cons Let_def del: walk.simps(2))
  qed
qed


section \<open>The book store\<close>

subsection \<open>One entry per key\<close>

lemma keys_map_set: "fst ` set (map_set k v m) = insert k (fst ` set m)"
proof (induction m)
  case Nil then show ?case by simp
next
  case (Cons e m)
  obtain k' v' where e: "e = (k', v')" by (cases e)
  show ?case
  proof (cases "k' = k")
    case True then show ?thesis unfolding e by simp
  next
    case False
    then have "fst ` set (map_set k v (e # m)) = insert k' (fst ` set (map_set k v m))"
      unfolding e by simp
    also have "\<dots> = insert k (fst ` set (e # m))" unfolding Cons.IH e by auto
    finally show ?thesis .
  qed
qed

lemma distinct_map_set: "keys_distinct m \<Longrightarrow> keys_distinct (map_set k v m)"
  unfolding keys_distinct_def
proof (induction m)
  case Nil then show ?case by simp
next
  case (Cons e m)
  obtain k' v' where e: "e = (k', v')" by (cases e)
  show ?case
  proof (cases "k' = k")
    case True
    with Cons.prems show ?thesis unfolding e by simp
  next
    case False
    have "k' \<notin> fst ` set (map_set k v m)"
      using Cons.prems False unfolding e keys_map_set by auto
    with Cons False show ?thesis unfolding e by simp
  qed
qed

lemma distinct_map_delete: "keys_distinct m \<Longrightarrow> keys_distinct (map_delete k m)"
  by (simp add: keys_distinct_def map_delete_def distinct_map_filter)

lemma foldl_preserves:
  assumes "P m" "\<And>e acc. P acc \<Longrightarrow> P (f acc e)"
  shows "P (foldl f m es)"
  using assms(1) by (induction es arbitrary: m) (auto intro: assms(2))

lemma distinct_set_all: "keys_distinct m \<Longrightarrow> keys_distinct (set_all es m)"
  unfolding set_all_def by (rule foldl_preserves) (auto intro: distinct_map_set)

lemma distinct_apply_delta: "keys_distinct m \<Longrightarrow> keys_distinct (apply_delta es m)"
  unfolding apply_delta_def
  by (rule foldl_preserves) (auto simp: delta_entry_def intro: distinct_map_set distinct_map_delete)

lemma distinct_updateBook: "keys_distinct m \<Longrightarrow> keys_distinct (updateBook es m)"
  unfolding updateBook_def
  by (rule foldl_preserves) (auto simp: updateBook_entry_def intro: distinct_map_set distinct_map_delete)

lemma keys_distinct_Nil: "keys_distinct []" by (simp add: keys_distinct_def)

lemma distinct_apply_message:
  assumes "keys_distinct (ref_bids r)" "keys_distinct (ref_asks r)"
  shows "keys_distinct (ref_bids (apply_message v sn bd ad r))"
    and "keys_distinct (ref_asks (apply_message v sn bd ad r))"
  using assms
  by (auto simp: apply_message_def new_Map_def keys_distinct_Nil
           intro: distinct_set_all distinct_apply_delta distinct_updateBook)

subsection \<open>The order of the exposed levels\<close>

lemma jkey_le_jle: "\<not> isNaN a \<Longrightarrow> \<not> isNaN b \<Longrightarrow> jkey a \<le> jkey b \<Longrightarrow> jle a b"
  by (simp add: jle_def)

lemma down_key_le: "down_key a \<le> down_key b \<longleftrightarrow> jkey (price b) \<le> jkey (price a)"
  by (cases "jkey (price a)"; cases "jkey (price b)") (auto simp: down_key_def)

lemma asks_ascending: "ascending (asks (updateUI r))"
proof -
  let ?xs = "filter numeric (map to_level (ref_asks r))"
  have "sorted (map up_key (sort_key up_key ?xs))" by (rule sorted_sort_key)
  then have sw: "sorted_wrt (\<lambda>a b. up_key a \<le> up_key b) (sort_key up_key ?xs)"
    by (simp add: sorted_map)
  have "sorted_wrt (\<lambda>a b. jle (price a) (price b)) (sort_key up_key ?xs)"
  proof (rule sorted_wrt_mono_rel[OF _ sw])
    fix a b assume "a \<in> set (sort_key up_key ?xs)" "b \<in> set (sort_key up_key ?xs)"
      and "up_key a \<le> up_key b"
    then show "jle (price a) (price b)"
      by (auto simp: up_key_def numeric_def intro: jkey_le_jle)
  qed
  then show ?thesis by (simp add: ascending_def updateUI_def)
qed

lemma bids_descending: "descending (bids (updateUI r))"
proof -
  let ?xs = "filter numeric (map to_level (ref_bids r))"
  have "sorted (map down_key (sort_key down_key ?xs))" by (rule sorted_sort_key)
  then have sw: "sorted_wrt (\<lambda>a b. down_key a \<le> down_key b) (sort_key down_key ?xs)"
    by (simp add: sorted_map)
  have "sorted_wrt (\<lambda>a b. jge (price a) (price b)) (sort_key down_key ?xs)"
  proof (rule sorted_wrt_mono_rel[OF _ sw])
    fix a b assume "a \<in> set (sort_key down_key ?xs)" "b \<in> set (sort_key down_key ?xs)"
      and "down_key a \<le> down_key b"
    then show "jge (price a) (price b)"
      by (auto simp: down_key_le jge_def numeric_def intro: jkey_le_jle)
  qed
  then show ?thesis by (simp add: descending_def updateUI_def)
qed

lemma levels_numeric:
  "lv \<in> set (bids (updateUI r)) \<union> set (asks (updateUI r)) \<Longrightarrow> numeric lv"
  by (auto simp: updateUI_def)

lemma bids_set: "set (bids (updateUI r)) = {to_level e | e. e \<in> set (ref_bids r) \<and> numeric (to_level e)}"
  by (auto simp: updateUI_def)

lemma asks_set: "set (asks (updateUI r)) = {to_level e | e. e \<in> set (ref_asks r) \<and> numeric (to_level e)}"
  by (auto simp: updateUI_def)

lemma jkey_inj: "\<not> isNaN a \<Longrightarrow> \<not> isNaN b \<Longrightarrow> jkey a = jkey b \<Longrightarrow> a = b"
  by (cases a; cases b) simp_all

lemma prices_distinct:
  assumes "keys_distinct m" "inj_on parseFloat (fst ` set m)"
  shows "distinct (map price (filter numeric (map to_level m)))"
proof -
  have "distinct (map (parseFloat \<circ> fst) m)"
    using assms by (simp add: keys_distinct_def distinct_map comp_inj_on_iff inj_on_def) 
  then have "distinct (map price (map to_level m))"
    by (simp add: to_level_def comp_def)
  then show ?thesis by (rule distinct_map_filter)
qed

lemma distinct_map_sort_key: "distinct (map g (sort_key f xs)) = distinct (map g xs)"
proof -
  have "mset (map g (sort_key f xs)) = mset (map g xs)" by simp
  then show ?thesis by (rule mset_eq_imp_distinct_iff)
qed

lemma asks_strict:
  assumes "keys_distinct (ref_asks r)" "inj_on parseFloat (fst ` set (ref_asks r))"
  shows "strictly_ascending (asks (updateUI r))"
proof -
  let ?xs = "filter numeric (map to_level (ref_asks r))"
  let ?ys = "sort_key up_key ?xs"
  have num: "\<forall>lv \<in> set ?ys. numeric lv" by simp
  have dp: "distinct (map price ?ys)"
    using prices_distinct[OF assms] by (simp add: distinct_map_sort_key)
  then have dy: "distinct ?ys" by (simp add: distinct_map)
  have "inj_on up_key (set ?ys)"
  proof (rule inj_onI)
    fix a b assume ab: "a \<in> set ?ys" "b \<in> set ?ys" "up_key a = up_key b"
    with num have "price a = price b" by (auto simp: up_key_def numeric_def intro: jkey_inj)
    with dp ab(1,2) show "a = b" by (auto simp: distinct_map inj_on_def)
  qed
  with dy have "distinct (map up_key ?ys)" by (simp add: distinct_map)
  moreover have "sorted (map up_key ?ys)" by (rule sorted_sort_key)
  ultimately have "sorted_wrt (<) (map up_key ?ys)" by (simp add: strict_sorted_iff)
  then have sw: "sorted_wrt (\<lambda>a b. up_key a < up_key b) ?ys" by (simp add: sorted_wrt_map)
  have "sorted_wrt (\<lambda>a b. jlt (price a) (price b)) ?ys"
  proof (rule sorted_wrt_mono_rel[OF _ sw])
    fix a b assume "a \<in> set ?ys" "b \<in> set ?ys" "up_key a < up_key b"
    then show "jlt (price a) (price b)" by (auto simp: up_key_def numeric_def jlt_def)
  qed
  then show ?thesis by (simp add: strictly_ascending_def updateUI_def)
qed

lemma down_key_less: "down_key a < down_key b \<longleftrightarrow> jkey (price b) < jkey (price a)"
  by (cases "jkey (price a)"; cases "jkey (price b)") (auto simp: down_key_def)

lemma down_key_eq: "down_key a = down_key b \<longleftrightarrow> jkey (price a) = jkey (price b)"
  by (cases "jkey (price a)"; cases "jkey (price b)") (auto simp: down_key_def)

lemma bids_strict:
  assumes "keys_distinct (ref_bids r)" "inj_on parseFloat (fst ` set (ref_bids r))"
  shows "strictly_descending (bids (updateUI r))"
proof -
  let ?xs = "filter numeric (map to_level (ref_bids r))"
  let ?ys = "sort_key down_key ?xs"
  have num: "\<forall>lv \<in> set ?ys. numeric lv" by simp
  have dp: "distinct (map price ?ys)"
    using prices_distinct[OF assms] by (simp add: distinct_map_sort_key)
  then have dy: "distinct ?ys" by (simp add: distinct_map)
  have "inj_on down_key (set ?ys)"
  proof (rule inj_onI)
    fix a b assume ab: "a \<in> set ?ys" "b \<in> set ?ys" "down_key a = down_key b"
    with num have "price a = price b" by (auto simp: down_key_eq numeric_def intro: jkey_inj)
    with dp ab(1,2) show "a = b" by (auto simp: distinct_map inj_on_def)
  qed
  with dy have "distinct (map down_key ?ys)" by (simp add: distinct_map)
  moreover have "sorted (map down_key ?ys)" by (rule sorted_sort_key)
  ultimately have "sorted_wrt (<) (map down_key ?ys)" by (simp add: strict_sorted_iff)
  then have sw: "sorted_wrt (\<lambda>a b. down_key a < down_key b) ?ys" by (simp add: sorted_wrt_map)
  have "sorted_wrt (\<lambda>a b. jgt (price a) (price b)) ?ys"
  proof (rule sorted_wrt_mono_rel[OF _ sw])
    fix a b assume "a \<in> set ?ys" "b \<in> set ?ys" "down_key a < down_key b"
    then show "jgt (price a) (price b)" by (auto simp: down_key_less numeric_def jgt_def jlt_def)
  qed
  then show ?thesis by (simp add: strictly_descending_def updateUI_def)
qed

subsection \<open>Sizes of zero\<close>

lemma no_zero_map_set: "no_zero m \<Longrightarrow> \<not> jeq (parseFloat v) (Fin 0) \<Longrightarrow> no_zero (map_set k v m)"
  by (induction m) (auto simp: no_zero_def)

lemma no_zero_map_delete: "no_zero m \<Longrightarrow> no_zero (map_delete k m)"
  by (simp add: no_zero_def map_delete_def list_all_iff)

lemma no_zero_apply_delta: "no_zero m \<Longrightarrow> no_zero (apply_delta es m)"
  unfolding apply_delta_def
  by (rule foldl_preserves) (auto simp: delta_entry_def intro: no_zero_map_set no_zero_map_delete)

lemma zero_delta_deletes:
  "jeq (parseFloat (element e 1)) (Fin 0) \<Longrightarrow> element e 0 \<notin> fst ` set (delta_entry e m)"
  by (auto simp: delta_entry_def map_delete_def)

lemma no_zero_levels:
  assumes "no_zero m" "lv \<in> set (filter numeric (map to_level m))"
  shows "size_l lv \<noteq> Fin 0"
  using assms by (auto simp: no_zero_def list_all_iff to_level_def jeq_def)

subsection \<open>The state of the hook\<close>

lemma feed_ok_initial: "feed_ok initial_feed"
  by (simp add: feed_ok_def initial_feed_def keys_distinct_def updateUI_def)

lemma feed_ok_onmessage: "feed_ok f \<Longrightarrow> feed_ok (onmessage v msg f)"
  by (cases msg) (auto simp: feed_ok_def onmessage_def Let_def intro: distinct_apply_message)

lemma feed_ok_receive: "feed_ok f \<Longrightarrow> feed_ok (receive msgs f)"
proof (induction msgs arbitrary: f)
  case Nil then show ?case by simp
next
  case (Cons m msgs)
  obtain v msg where m: "m = (v, msg)" by (cases m)
  have step: "feed_ok (onmessage v msg f)" using Cons.prems by (rule feed_ok_onmessage)
  from Cons.IH[OF step] show ?case by (simp add: m)
qed

lemma receive_ok: "feed_ok (receive msgs initial_feed)"
  by (rule feed_ok_receive[OF feed_ok_initial])

lemma updateUI_natural_order: "natural_order op (relevantBook op (updateUI r))"
  by (simp add: natural_order_def relevantBook_def asks_ascending bids_descending)


text \<open>
  C8. For a Limit order the level walk of the source (which passes over a level that
  crosses the limit and goes on) consumes exactly what a walk that stops at the first
  crossing level consumes, on every side of a book in its natural order (asks ascending
  for a Buy, bids descending for a Sell), and so on every book that \<open>updateUI\<close> builds;
  and on any list of levels the levels that cross the limit contribute nothing, so that
  no consumed level violates the limit price.
\<close>

theorem C8_limit_walk_stops:
  assumes "natural_order op lvs"
  shows "walk op lvs st = walk_stop op lvs st \<and>
         walk op (filter (\<lambda>lv. \<not> crosses op lv) lvs) st = walk op lvs st \<and>
         walk op (relevantBook op (updateUI r)) st = walk_stop op (relevantBook op (updateUI r)) st"
  using walk_eq_stop[OF assms] walk_filter walk_eq_stop[OF updateUI_natural_order] by simp

theorem C8_witness:
  "natural_order ((buy_market OKX 5)\<lparr>orderType := Limit, limit_price := Fin 100\<rparr>) (asks two_sided_book) \<and>
   walk ((buy_market OKX 5)\<lparr>orderType := Limit, limit_price := Fin 100\<rparr>) (asks two_sided_book)
        (Fin 5, Fin 0, Fin 0) = (Fin 4, Fin 100, Fin 1) \<and>
   walk_stop ((buy_market OKX 5)\<lparr>orderType := Limit, limit_price := Fin 100\<rparr>) (asks two_sided_book)
        (Fin 5, Fin 0, Fin 0) = (Fin 4, Fin 100, Fin 1)"
  using C8_limit_walk_stops[of "(buy_market OKX 5)\<lparr>orderType := Limit, limit_price := Fin 100\<rparr>"
      "asks two_sided_book" "(Fin 5, Fin 0, Fin 0)" "\<lparr>ref_bids = [], ref_asks = []\<rparr>"]
  by (simp add: natural_order_def ascending_def two_sided_book_def buy_market_def crosses_def)


text \<open>
  C4, as stated, fails: a snapshot of Bybit with the keys \<open>'100'\<close> and \<open>'100.0'\<close> exposes
  the price 100 twice, and a snapshot with a size \<open>'0'\<close> exposes a level of size zero;
  neither book satisfies the invariant.
\<close>

theorem C4_counterexample:
  "bids (orderBooks (receive [(BYBIT, BookData True [ [JStr ''100'', JStr ''1''], [JStr ''100.0'', JStr ''2''] ] [])]
            initial_feed) BYBIT) =
     [\<lparr>price = Fin 100, size_l = Fin 1\<rparr>, \<lparr>price = Fin 100, size_l = Fin 2\<rparr>] \<and>
   \<not> book_invariant (orderBooks (receive
        [(BYBIT, BookData True [ [JStr ''100'', JStr ''1''], [JStr ''100.0'', JStr ''2''] ] [])] initial_feed) BYBIT) \<and>
   bids (orderBooks (receive [(BYBIT, BookData True [ [JStr ''100'', JStr ''0''] ] [])] initial_feed) BYBIT) =
     [\<lparr>price = Fin 100, size_l = Fin 0\<rparr>] \<and>
   \<not> book_invariant (orderBooks (receive
        [(BYBIT, BookData True [ [JStr ''100'', JStr ''0''] ] [])] initial_feed) BYBIT)"
  by (simp add: book_invariant_def strictly_descending_def feed_eval number_eval)

text \<open>
  C4, amended. After every sequence of snapshot and delta messages, the bids of every
  exposed book are in descending and its asks in ascending order of price (equal prices
  may follow each other), each map holds one entry per key and the exposed book is the
  one \<open>updateUI\<close> builds from the maps; the order is strict, with no price twice on a
  side, when distinct keys of the map parse to distinct prices. A delta entry of OKX or
  Bybit whose size parses to zero deletes the level rather than storing it, a delta
  stores no size that parses to zero, and a book built from maps without such sizes
  has no level of size zero; a snapshot is stored as it is received.
\<close>

theorem C4_book_order:
  "descending (bids (orderBooks (receive msgs initial_feed) v)) \<and>
   ascending (asks (orderBooks (receive msgs initial_feed) v)) \<and>
   keys_distinct (ref_bids (bookRefs (receive msgs initial_feed) v)) \<and>
   keys_distinct (ref_asks (bookRefs (receive msgs initial_feed) v)) \<and>
   orderBooks (receive msgs initial_feed) v = updateUI (bookRefs (receive msgs initial_feed) v) \<and>
   (inj_on parseFloat (fst ` set (ref_bids (bookRefs (receive msgs initial_feed) v))) \<longrightarrow>
      strictly_descending (bids (orderBooks (receive msgs initial_feed) v))) \<and>
   (inj_on parseFloat (fst ` set (ref_asks (bookRefs (receive msgs initial_feed) v))) \<longrightarrow>
      strictly_ascending (asks (orderBooks (receive msgs initial_feed) v))) \<and>
   (jeq (parseFloat (element e 1)) (Fin 0) \<longrightarrow> element e 0 \<notin> fst ` set (delta_entry e m)) \<and>
   (no_zero m \<longrightarrow> no_zero (apply_delta es m)) \<and>
   (no_zero (ref_bids r) \<and> no_zero (ref_asks r) \<longrightarrow>
      list_all (\<lambda>lv. size_l lv \<noteq> Fin 0) (bids (updateUI r) @ asks (updateUI r)))"
proof -
  let ?f = "receive msgs initial_feed"
  have ok: "feed_ok ?f" by (rule receive_ok)
  then have eq: "orderBooks ?f v = updateUI (bookRefs ?f v)"
    and kb: "keys_distinct (ref_bids (bookRefs ?f v))"
    and ka: "keys_distinct (ref_asks (bookRefs ?f v))"
    by (simp_all add: feed_ok_def)
  have d: "descending (bids (orderBooks ?f v))" unfolding eq by (rule bids_descending)
  have a: "ascending (asks (orderBooks ?f v))" unfolding eq by (rule asks_ascending)
  have sd: "inj_on parseFloat (fst ` set (ref_bids (bookRefs ?f v))) \<longrightarrow>
      strictly_descending (bids (orderBooks ?f v))"
    unfolding eq using bids_strict[OF kb] by blast
  have sa: "inj_on parseFloat (fst ` set (ref_asks (bookRefs ?f v))) \<longrightarrow>
      strictly_ascending (asks (orderBooks ?f v))"
    unfolding eq using asks_strict[OF ka] by blast
  have z: "jeq (parseFloat (element e 1)) (Fin 0) \<longrightarrow> element e 0 \<notin> fst ` set (delta_entry e m)"
    using zero_delta_deletes by blast
  have nz: "no_zero m \<longrightarrow> no_zero (apply_delta es m)" using no_zero_apply_delta by blast
  have lv: "no_zero (ref_bids r) \<and> no_zero (ref_asks r) \<longrightarrow>
      list_all (\<lambda>lv. size_l lv \<noteq> Fin 0) (bids (updateUI r) @ asks (updateUI r))"
    using no_zero_levels[of "ref_bids r"] no_zero_levels[of "ref_asks r"]
    by (auto simp: list_all_iff updateUI_def)
  from d a kb ka eq sd sa z nz lv show ?thesis by blast
qed

theorem C4_witness:
  "orderBooks (receive sample_messages initial_feed) OKX =
     \<lparr>bids = [\<lparr>price = Fin 101, size_l = Fin 2\<rparr>, \<lparr>price = Fin 99.5, size_l = Fin 4\<rparr>],
      asks = [\<lparr>price = Fin 102, size_l = Fin 3\<rparr>]\<rparr> \<and>
   inj_on parseFloat (fst ` set (ref_bids (bookRefs (receive sample_messages initial_feed) OKX))) \<and>
   strictly_descending (bids (orderBooks (receive sample_messages initial_feed) OKX)) \<and>
   JStr ''100'' \<notin> fst ` set (delta_entry [JStr ''100'', JStr ''0''] [(JStr ''100'', JStr ''1'')])"
  using C4_book_order[of sample_messages OKX "[JStr ''100'', JStr ''0'']" "[(JStr ''100'', JStr ''1'')]"]
  by (simp add: sample_messages_def feed_eval number_eval)

text \<open>
  C10. Every level of every exposed book has a price and a size that are not NaN: the
  levels of a side are exactly the entries of its map whose price and size both parse
  to numbers, so an entry whose price or size fails to parse is in no book that the
  impact calculation or the order evaluation reads.
\<close>

theorem C10_levels_numeric:
  "(\<forall>lv \<in> set (bids (orderBooks (receive msgs initial_feed) v)) \<union>
            set (asks (orderBooks (receive msgs initial_feed) v)).
       \<not> isNaN (price lv) \<and> \<not> isNaN (size_l lv)) \<and>
   set (bids (updateUI r)) = {to_level e | e. e \<in> set (ref_bids r) \<and> numeric (to_level e)} \<and>
   set (asks (updateUI r)) = {to_level e | e. e \<in> set (ref_asks r) \<and> numeric (to_level e)} \<and>
   (\<forall>p s. isNaN (parseFloat p) \<or> isNaN (parseFloat s) \<longrightarrow>
      to_level (p, s) \<notin> set (bids (updateUI r)) \<union> set (asks (updateUI r)))"
proof -
  let ?f = "receive msgs initial_feed"
  have eq: "orderBooks ?f v = updateUI (bookRefs ?f v)"
    using receive_ok[of msgs] by (simp add: feed_ok_def)
  have n: "\<forall>lv \<in> set (bids (orderBooks ?f v)) \<union> set (asks (orderBooks ?f v)).
       \<not> isNaN (price lv) \<and> \<not> isNaN (size_l lv)"
    unfolding eq using levels_numeric[of _ "bookRefs ?f v"] by (auto simp: numeric_def)
  have m: "\<forall>p s. isNaN (parseFloat p) \<or> isNaN (parseFloat s) \<longrightarrow>
      to_level (p, s) \<notin> set (bids (updateUI r)) \<union> set (asks (updateUI r))"
    by (auto simp: updateUI_def numeric_def to_level_def)
  from n m bids_set asks_set show ?thesis by blast
qed

theorem C10_witness:
  "orderBooks (receive malformed_messages initial_feed) BYBIT =
     \<lparr>bids = [\<lparr>price = Fin 99, size_l = Fin 2\<rparr>], asks = []\<rparr> \<and>
   ref_bids (bookRefs (receive malformed_messages initial_feed) BYBIT) =
     [(JStr ''abc'', JStr ''1''), (JStr ''100'', JStr ''''), (JStr ''99'', JStr ''2'')] \<and>
   \<not> isNaN (price \<lparr>price = Fin 99, size_l = Fin 2\<rparr>)"
  using C10_levels_numeric[of malformed_messages BYBIT]
  by (simp add: malformed_messages_def feed_eval number_eval)


section \<open>The order ledger\<close>

subsection \<open>Searching the ledger\<close>

lemma find_filter_none: "find (\<lambda>ord. oid ord = k) (filter (\<lambda>ord. oid ord \<noteq> k) us) = None"
  by (induction us) auto

lemma find_filter_map:
  assumes "find P xs = Some x" "\<And>y. P (f y) = P y" "Q (f x)"
  shows "find P (filter Q (map f xs)) = Some (f x)"
  using assms(1)
proof (induction xs)
  case Nil then show ?case by simp
next
  case (Cons u us)
  show ?case
  proof (cases "P u")
    case True
    with Cons.prems have "u = x" by simp
    with True assms(2,3) show ?thesis by simp
  next
    case False
    with Cons.prems have "find P us = Some x" by simp
    from Cons.IH[OF this] False assms(2) show ?thesis by simp
  qed
qed

lemma find_map_same:
  assumes "\<And>y. P (f y) = P y"
  shows "find P (map f xs) = map_option f (find P xs)"
  by (induction xs) (simp_all add: assms)


subsection \<open>Cancelling, and the timer of a scheduled order\<close>

text \<open>
  C2 fails on the code: \<open>confirmCancelOrder\<close> does not look at the status again. A
  position that was filled while the confirmation was open is set to Cancelled.
\<close>

theorem C2_cancel_overwrites_filled:
  "status (position 1 Buy 1 100) = Filled \<and>
   map status (confirmCancelOrder (Some 1) [position 1 Buy 1 100]) = [Cancelled]"
  by (simp add: confirmCancelOrder_def position_def new_order_def)

lemma find_cancel:
  "find (\<lambda>ord. oid ord = c) (confirmCancelOrder (Some c) p) =
     map_option (\<lambda>ord. ord\<lparr>status := Cancelled\<rparr>) (find (\<lambda>ord. oid ord = c) p)"
  by (induction p) (auto simp: confirmCancelOrder_def)

lemma timer_after_cancel:
  "scheduled_execution now newId c ps books (confirmCancelOrder (Some newId) p) =
     Inr (confirmCancelOrder (Some newId) p)"
  by (cases "find (\<lambda>ord. oid ord = newId) p") (simp_all add: scheduled_execution_def find_cancel)

text \<open>
  C7. When its timer fires, a scheduled order whose status is no longer Pending leaves
  the ledger as it is; so after an order is placed and its cancellation confirmed, the
  timer changes nothing and the order is Cancelled.
\<close>

theorem C7_cancelled_before_timer:
  "(find (\<lambda>ord. oid ord = newId) prev = Some x \<and> status x \<noteq> Pending \<longrightarrow>
      scheduled_execution now newId c ps books prev = Inr prev) \<and>
   scheduled_execution now newId c ps books
       (confirmCancelOrder (Some newId) (place_order newId c ps ledger)) =
     Inr (confirmCancelOrder (Some newId) (place_order newId c ps ledger)) \<and>
   map_option status (find (\<lambda>ord. oid ord = newId)
       (confirmCancelOrder (Some newId) (place_order newId c ps ledger))) = Some Cancelled"
  by (simp add: timer_after_cancel find_cancel scheduled_execution_def)
     (simp add: place_order_def new_order_def)

theorem C7_witness:
  "scheduled_execution 5000 7 0 (buy_market OKX 2) (\<lambda>_. two_sided_book)
       (confirmCancelOrder (Some 7) (place_order 7 0 (buy_market OKX 2) [])) =
     Inr [(new_order 7 0 (buy_market OKX 2))\<lparr>status := Cancelled\<rparr>] \<and>
   scheduled_execution 5000 7 0 (buy_market OKX 2) (\<lambda>_. two_sided_book)
       (place_order 7 0 (buy_market OKX 2) []) \<noteq> Inr (place_order 7 0 (buy_market OKX 2) [])"
  using C7_cancelled_before_timer[of 7 "[(new_order 7 0 (buy_market OKX 2))\<lparr>status := Cancelled\<rparr>]"
      "(new_order 7 0 (buy_market OKX 2))\<lparr>status := Cancelled\<rparr>" 5000 0 "buy_market OKX 2"
      "\<lambda>_. two_sided_book" "[]"]
  by (simp add: confirmCancelOrder_def place_order_def new_order_def scheduled_execution_def
        two_sided_book_def buy_market_def calculateMarketImpact_def open_position_like_def)


subsection \<open>Position averaging\<close>

lemma merge_into_like: "open_position_like ps (merge_into k tq av y) = open_position_like ps y"
  by (simp add: merge_into_def open_position_like_def)

lemma merge_into_oid: "oid (merge_into k tq av y) = oid y"
  by (simp add: merge_into_def)

lemma merge_into_self:
  "result pos = Some r \<Longrightarrow>
   merge_into (oid pos) tq av pos =
     pos\<lparr>params := (params pos)\<lparr>quantity := tq\<rparr>, result := Some (r\<lparr>r_avgFillPrice := Some av\<rparr>)\<rparr>"
  by (simp add: merge_into_def spread_avg_def)

lemma scheduled_merge:
  assumes "find (\<lambda>ord. oid ord = newId) prev = Some pending" "status pending = Pending"
      and "bids (books (venue ps)) \<noteq> []" "asks (books (venue ps)) \<noteq> []"
      and "jgt (filledPercentage (calculateMarketImpact ps (books (venue ps)))) (Fin 0)"
      and "find (open_position_like ps) prev = Some pos" "oid pos \<noteq> newId"
      and "result pos = Some r" "r_avgFillPrice r = Some (Fin oldAvg)"
      and "quantity (params pos) = Fin oldQty"
      and "avgFillPrice (calculateMarketImpact ps (books (venue ps))) = Fin fillAvg"
      and "quantity ps = Fin reqQty" "oldQty + reqQty \<noteq> 0"
  shows "\<exists>ledger. scheduled_execution now newId c ps books prev = Inr ledger \<and>
           find (\<lambda>ord. oid ord = newId) ledger = None \<and>
           find (open_position_like ps) ledger =
             Some (pos\<lparr>params := (params pos)\<lparr>quantity := Fin (oldQty + reqQty)\<rparr>,
                       result := Some (r\<lparr>r_avgFillPrice :=
                          Some (Fin ((oldAvg * oldQty + fillAvg * reqQty) / (oldQty + reqQty)))\<rparr>)\<rparr>)"
proof -
  let ?tq = "Fin (oldQty + reqQty)"
  let ?av = "Fin ((oldAvg * oldQty + fillAvg * reqQty) / (oldQty + reqQty))"
  let ?L = "filter (\<lambda>ord. oid ord \<noteq> newId) (map (merge_into (oid pos) ?tq ?av) prev)"
  have run: "scheduled_execution now newId c ps books prev = Inr ?L"
    using assms by (simp add: scheduled_execution_def Let_def to_number_def)
  have none: "find (\<lambda>ord. oid ord = newId) ?L = None" by (rule find_filter_none)
  have "find (open_position_like ps) ?L = Some (merge_into (oid pos) ?tq ?av pos)"
    by (rule find_filter_map[OF assms(6)]) (simp_all add: merge_into_like merge_into_oid assms(7))
  with run none show ?thesis by (simp add: merge_into_self[OF assms(8)])
qed

lemma add_quantity_merge:
  assumes "find (\<lambda>ord. oid ord = k) ledger = Some pos"
      and "bids (books (venue (params pos))) \<noteq> []" "asks (books (venue (params pos))) \<noteq> []"
      and "result pos = Some r" "r_avgFillPrice r = Some (Fin oldAvg)"
      and "quantity (params pos) = Fin oldQty"
      and "avgFillPrice (calculateMarketImpact ((params pos)\<lparr>quantity := Fin addQty, orderType := Market\<rparr>)
              (books (venue (params pos)))) = Fin fillAvg"
      and "oldQty + addQty \<noteq> 0"
  shows "\<exists>ledger'. handleAddQuantity books k (Fin addQty) ledger = Inr ledger' \<and>
           find (\<lambda>ord. oid ord = k) ledger' =
             Some (pos\<lparr>params := (params pos)\<lparr>quantity := Fin (oldQty + addQty)\<rparr>,
                       result := Some (r\<lparr>r_avgFillPrice :=
                          Some (Fin ((oldAvg * oldQty + fillAvg * addQty) / (oldQty + addQty)))\<rparr>)\<rparr>)"
proof -
  let ?tq = "Fin (oldQty + addQty)"
  let ?av = "Fin ((oldAvg * oldQty + fillAvg * addQty) / (oldQty + addQty))"
  have k: "oid pos = k" using assms(1) by (auto dest: find_Some_iff[THEN iffD1])
  have run: "handleAddQuantity books k (Fin addQty) ledger = Inr (map (merge_into k ?tq ?av) ledger)"
    using assms by (simp add: handleAddQuantity_def Let_def to_number_def)
  have "find (\<lambda>ord. oid ord = k) (map (merge_into k ?tq ?av) ledger) = Some (merge_into k ?tq ?av pos)"
    by (simp add: find_map_same merge_into_oid assms(1))
  with run show ?thesis using merge_into_self[OF assms(4), of ?tq ?av] k by simp
qed

text \<open>
  C3, as stated, fails on a partial fill: a position of 1 at 100 and a Buy Market order
  of 5 that fills 3 (at 302/3 on average) merge into a position of quantity 6, not
  1 + 3, at the average (100 * 1 + 302/3 * 5) / 6.
\<close>

theorem C3_partial_fill_counterexample:
  "walk (buy_market OKX 5) (asks two_sided_book) (Fin 5, Fin 0, Fin 0) = (Fin 2, Fin 302, Fin 3) \<and>
   scheduled_execution 1 2 0 (buy_market OKX 5) (\<lambda>_. two_sided_book)
       (place_order 2 0 (buy_market OKX 5) [position 1 Buy 1 100]) =
     Inr [position 1 Buy 6 (905 / 9)] \<and>
   position 1 Buy 6 (905 / 9) \<noteq> position 1 Buy (1 + 3) ((100 * 1 + (302 / 3) * 3) / (1 + 3))"
  by (simp add: scheduled_execution_def calculateMarketImpact_def two_sided_book_def Let_def ledger_eval)

text \<open>
  C3, amended. When the fill of a scheduled order is merged into an open position of the
  same symbol, side and venue, or a quantity is added to a position, the position gets
  the quantity oldQty + q and the average entry price (oldAvg * oldQty + fillAvg * q) /
  (oldQty + q), where fillAvg is the average price of the new fill and q is the quantity
  the new order asked for (the filled quantity when the fill is complete); the record
  of the scheduled order is removed from the ledger. With 1 at 100 and a fill of 1 at
  110 the position is 2 at 105.
\<close>

theorem C3_position_averaging:
  "(find (\<lambda>ord. oid ord = newId) prev = Some pending \<and> status pending = Pending \<and>
    bids (books (venue ps)) \<noteq> [] \<and> asks (books (venue ps)) \<noteq> [] \<and>
    jgt (filledPercentage (calculateMarketImpact ps (books (venue ps)))) (Fin 0) \<and>
    find (open_position_like ps) prev = Some pos \<and> oid pos \<noteq> newId \<and>
    result pos = Some r \<and> r_avgFillPrice r = Some (Fin oldAvg) \<and>
    quantity (params pos) = Fin oldQty \<and>
    avgFillPrice (calculateMarketImpact ps (books (venue ps))) = Fin fillAvg \<and>
    quantity ps = Fin reqQty \<and> oldQty + reqQty \<noteq> 0 \<longrightarrow>
    (\<exists>ledger. scheduled_execution now newId c ps books prev = Inr ledger \<and>
       find (\<lambda>ord. oid ord = newId) ledger = None \<and>
       find (open_position_like ps) ledger =
         Some (pos\<lparr>params := (params pos)\<lparr>quantity := Fin (oldQty + reqQty)\<rparr>,
                   result := Some (r\<lparr>r_avgFillPrice :=
                      Some (Fin ((oldAvg * oldQty + fillAvg * reqQty) / (oldQty + reqQty)))\<rparr>)\<rparr>))) \<and>
   (find (\<lambda>ord. oid ord = k) held = Some pos' \<and>
    bids (books' (venue (params pos'))) \<noteq> [] \<and> asks (books' (venue (params pos'))) \<noteq> [] \<and>
    result pos' = Some r' \<and> r_avgFillPrice r' = Some (Fin oldAvg') \<and>
    quantity (params pos') = Fin oldQty' \<and>
    avgFillPrice (calculateMarketImpact ((params pos')\<lparr>quantity := Fin addQty, orderType := Market\<rparr>)
       (books' (venue (params pos')))) = Fin fillAvg' \<and>
    oldQty' + addQty \<noteq> 0 \<longrightarrow>
    (\<exists>ledger'. handleAddQuantity books' k (Fin addQty) held = Inr ledger' \<and>
       find (\<lambda>ord. oid ord = k) ledger' =
         Some (pos'\<lparr>params := (params pos')\<lparr>quantity := Fin (oldQty' + addQty)\<rparr>,
                    result := Some (r'\<lparr>r_avgFillPrice :=
                       Some (Fin ((oldAvg' * oldQty' + fillAvg' * addQty) / (oldQty' + addQty)))\<rparr>)\<rparr>)))"
proof (intro conjI impI)
  assume H: "find (\<lambda>ord. oid ord = newId) prev = Some pending \<and> status pending = Pending \<and>
    bids (books (venue ps)) \<noteq> [] \<and> asks (books (venue ps)) \<noteq> [] \<and>
    jgt (filledPercentage (calculateMarketImpact ps (books (venue ps)))) (Fin 0) \<and>
    find (open_position_like ps) prev = Some pos \<and> oid pos \<noteq> newId \<and>
    result pos = Some r \<and> r_avgFillPrice r = Some (Fin oldAvg) \<and>
    quantity (params pos) = Fin oldQty \<and>
    avgFillPrice (calculateMarketImpact ps (books (venue ps))) = Fin fillAvg \<and>
    quantity ps = Fin reqQty \<and> oldQty + reqQty \<noteq> 0"
  show "\<exists>ledger. scheduled_execution now newId c ps books prev = Inr ledger \<and>
       find (\<lambda>ord. oid ord = newId) ledger = None \<and>
       find (open_position_like ps) ledger =
         Some (pos\<lparr>params := (params pos)\<lparr>quantity := Fin (oldQty + reqQty)\<rparr>,
                   result := Some (r\<lparr>r_avgFillPrice :=
                      Some (Fin ((oldAvg * oldQty + fillAvg * reqQty) / (oldQty + reqQty)))\<rparr>)\<rparr>)"
    by (rule scheduled_merge[where pending = pending]) (use H in simp_all)
next
  assume H: "find (\<lambda>ord. oid ord = k) held = Some pos' \<and>
    bids (books' (venue (params pos'))) \<noteq> [] \<and> asks (books' (venue (params pos'))) \<noteq> [] \<and>
    result pos' = Some r' \<and> r_avgFillPrice r' = Some (Fin oldAvg') \<and>
    quantity (params pos') = Fin oldQty' \<and>
    avgFillPrice (calculateMarketImpact ((params pos')\<lparr>quantity := Fin addQty, orderType := Market\<rparr>)
       (books' (venue (params pos')))) = Fin fillAvg' \<and>
    oldQty' + addQty \<noteq> 0"
  show "\<exists>ledger'. handleAddQuantity books' k (Fin addQty) held = Inr ledger' \<and>
       find (\<lambda>ord. oid ord = k) ledger' =
         Some (pos'\<lparr>params := (params pos')\<lparr>quantity := Fin (oldQty' + addQty)\<rparr>,
                    result := Some (r'\<lparr>r_avgFillPrice :=
                       Some (Fin ((oldAvg' * oldQty' + fillAvg' * addQty) / (oldQty' + addQty)))\<rparr>)\<rparr>)"
    by (rule add_quantity_merge) (use H in simp_all)
qed

theorem C3_witness:
  "scheduled_execution 1 2 0 (buy_market OKX 1) (\<lambda>_. book_at 110 110)
       (place_order 2 0 (buy_market OKX 1) [position 1 Buy 1 100]) = Inr [position 1 Buy 2 105] \<and>
   handleAddQuantity (\<lambda>_. book_at 110 110) 1 (Fin 1) [position 1 Buy 1 100] = Inr [position 1 Buy 2 105]"
  using C3_position_averaging[of 2 "place_order 2 0 (buy_market OKX 1) [position 1 Buy 1 100]"
      "new_order 2 0 (buy_market OKX 1)" "\<lambda>_. book_at 110 110" "buy_market OKX 1"
      "position 1 Buy 1 100" "filled_result 100" 100 1 110 1 1 0
      1 "[position 1 Buy 1 100]" "position 1 Buy 1 100" "\<lambda>_. book_at 110 110" "filled_result 100"
      100 1 1 110]
  by (simp add: scheduled_execution_def handleAddQuantity_def calculateMarketImpact_def book_at_def
        Let_def ledger_eval)


subsection \<open>Profit and loss\<close>

lemma close_position_pnl:
  assumes "find (\<lambda>ord. oid ord = k) ledger = Some pos" "positionId pos \<noteq> Some k"
      and "bids (books (venue (params pos))) \<noteq> []" "asks (books (venue (params pos))) \<noteq> []"
  defines "closeResult \<equiv> calculateMarketImpact
              ((params pos)\<lparr>side := opposite (side (params pos)), orderType := Market\<rparr>)
              (books (venue (params pos)))"
  shows "find (\<lambda>ord. oid ord = k) (handleClosePosition now books k ledger) =
           Some (pos\<lparr>pnl := Some (calculatePnl pos (avgFillPrice closeResult)),
                     exitResult := Some (with_executedAt closeResult now)\<rparr>)"
proof -
  let ?f = "\<lambda>ord. if oid ord = k
                   then ord\<lparr>pnl := Some (calculatePnl pos (avgFillPrice closeResult)),
                            exitResult := Some (with_executedAt closeResult now)\<rparr>
                   else ord"
  have k: "oid pos = k" using assms(1) by (auto dest: find_Some_iff[THEN iffD1])
  have run: "handleClosePosition now books k ledger =
               filter (\<lambda>sl. positionId sl \<noteq> Some k) (map ?f ledger)"
    unfolding closeResult_def using assms(1,3,4) by (simp add: handleClosePosition_def Let_def)
  have "find (\<lambda>ord. oid ord = k) (filter (\<lambda>sl. positionId sl \<noteq> Some k) (map ?f ledger)) = Some (?f pos)"
    by (rule find_filter_map[OF assms(1)]) (simp_all add: assms(2))
  with run k show ?thesis by simp
qed

lemma calculatePnl_formula:
  assumes "entry_price ord = Some (Fin entry)" "quantity (params ord) = Fin q"
      and "entry \<noteq> 0" "ref \<noteq> 0"
  shows "calculatePnl ord (Fin ref) = Fin (pnl_formula (side (params ord)) ref entry q)"
  using assms by (cases "side (params ord)") (simp_all add: calculatePnl_def pnl_formula_def)

text \<open>
  C9, as stated, fails at a reference price of zero: for a Buy position of 2 entered at
  100 the formula gives -200 and \<open>calculatePnl\<close> returns 0. Closing that position
  against bids of size zero is such a call.
\<close>

theorem C9_zero_reference_counterexample:
  "calculatePnl (position 1 Buy 2 100) (Fin 0) = Fin 0 \<and>
   pnl_formula Buy 0 100 2 = - 200 \<and>
   map pnl (handleClosePosition 5 (\<lambda>_. zero_size_bids) 1 [position 1 Buy 2 100]) = [Some (Fin 0)]"
  by (simp add: calculatePnl_def pnl_formula_def handleClosePosition_def zero_size_bids_def
        calculateMarketImpact_def zero_impact_def Let_def ledger_eval)

text \<open>
  C9, amended. For an entry price and a reference price that are numbers other than
  zero, the profit and loss is (reference - entry) * quantity for a Buy position and
  (entry - reference) * quantity for a Sell position; it is 0 when the order has no
  entry price or one of the two prices is zero or NaN. Closing a position sets its
  profit and loss from the average fill price of the simulated closing Market order,
  not from the mid-price.
\<close>

theorem C9_pnl:
  "(entry_price ord = Some (Fin entry) \<and> quantity (params ord) = Fin q \<and> entry \<noteq> 0 \<and> ref \<noteq> 0 \<longrightarrow>
      calculatePnl ord (Fin ref) = Fin (pnl_formula (side (params ord)) ref entry q)) \<and>
   (\<not> truthy_opt (entry_price ord) \<or> \<not> truthy cur \<longrightarrow> calculatePnl ord cur = Fin 0) \<and>
   (find (\<lambda>ord. oid ord = k) ledger = Some pos \<and> positionId pos \<noteq> Some k \<and>
    bids (books (venue (params pos))) \<noteq> [] \<and> asks (books (venue (params pos))) \<noteq> [] \<longrightarrow>
      find (\<lambda>ord. oid ord = k) (handleClosePosition now books k ledger) =
        Some (pos\<lparr>pnl := Some (calculatePnl pos (avgFillPrice (calculateMarketImpact
                        ((params pos)\<lparr>side := opposite (side (params pos)), orderType := Market\<rparr>)
                        (books (venue (params pos)))))),
                  exitResult := Some (with_executedAt (calculateMarketImpact
                        ((params pos)\<lparr>side := opposite (side (params pos)), orderType := Market\<rparr>)
                        (books (venue (params pos)))) now)\<rparr>))"
proof (intro conjI impI)
  assume H: "entry_price ord = Some (Fin entry) \<and> quantity (params ord) = Fin q \<and> entry \<noteq> 0 \<and> ref \<noteq> 0"
  show "calculatePnl ord (Fin ref) = Fin (pnl_formula (side (params ord)) ref entry q)"
    by (rule calculatePnl_formula) (use H in simp_all)
next
  assume "\<not> truthy_opt (entry_price ord) \<or> \<not> truthy cur"
  then show "calculatePnl ord cur = Fin 0"
    by (auto simp: calculatePnl_def truthy_opt_def split: option.splits)
next
  assume H: "find (\<lambda>ord. oid ord = k) ledger = Some pos \<and> positionId pos \<noteq> Some k \<and>
    bids (books (venue (params pos))) \<noteq> [] \<and> asks (books (venue (params pos))) \<noteq> []"
  show "find (\<lambda>ord. oid ord = k) (handleClosePosition now books k ledger) =
        Some (pos\<lparr>pnl := Some (calculatePnl pos (avgFillPrice (calculateMarketImpact
                        ((params pos)\<lparr>side := opposite (side (params pos)), orderType := Market\<rparr>)
                        (books (venue (params pos)))))),
                  exitResult := Some (with_executedAt (calculateMarketImpact
                        ((params pos)\<lparr>side := opposite (side (params pos)), orderType := Market\<rparr>)
                        (books (venue (params pos)))) now)\<rparr>)"
    by (rule close_position_pnl) (use H in simp_all)
qed

theorem C9_witness:
  "calculatePnl (position 1 Buy 2 100) (Fin 110) = Fin 20 \<and>
   calculatePnl (position 1 Sell 2 100) (Fin 110) = Fin (- 20) \<and>
   map pnl (handleClosePosition 5 (\<lambda>_. book_at 110 112) 1 [position 1 Buy 2 100]) = [Some (Fin 20)]"
  using C9_pnl[of "position 1 Buy 2 100" 100 2 110 "Fin 110" 1 "[position 1 Buy 2 100]"
                  "position 1 Buy 2 100" "\<lambda>_. book_at 110 112" 5]
        calculatePnl_formula[of "position 1 Sell 2 100" 100 2 110]
  by (simp add: pnl_formula_def handleClosePosition_def calculateMarketImpact_def book_at_def
        calculatePnl_def Let_def ledger_eval)


section \<open>The order-evaluation effect\<close>

text \<open>
  The effect reads the book of the selected exchange once, before its loop, and tests
  and executes every order of the viewed symbol against that book, whatever the venue
  of the order. The timer of a scheduled order, the closing of a position and the
  adding of a quantity read the book of the venue of the order.
\<close>

text \<open>
  C5, at a stop held on Bybit while OKX is selected. The position is a Buy of 1 entered
  at 100 on Bybit, its Sell stop at 95 is the one \<open>handleAddStopLoss\<close> makes. The
  mid-price of Bybit, 96.5, is above the stop price, and with Bybit selected the effect
  leaves the stop untriggered. With OKX selected, whose mid-price is 94.5, the effect
  triggers the stop and fills it from the bids of OKX at 94: the position gets the
  profit and loss -6 and the stop is removed.
  Further, a stop that fills at the entry price of its position sets the profit and
  loss 0, and the effect and the merge of later fills still take the position for an
  open one.
\<close>

theorem C5_stop_filled_from_selected_exchange:
  "handleAddStopLoss 2 0 1 (Fin 95) [on_venue BYBIT (position 1 Buy 1 100)] =
     [on_venue BYBIT (position 1 Buy 1 100), on_venue BYBIT (stop_order 2 1 Sell 1 95)] \<and>
   \<not> stop_triggers Sell (Fin ((96 + 97) / 2)) (Fin 95) \<and>
   order_effect 7 ''BTC-USDT'' (two_books (book_at 94 95) (book_at 96 97)) BYBIT
       [on_venue BYBIT (position 1 Buy 1 100), on_venue BYBIT (stop_order 2 1 Sell 1 95)] =
     Inr [on_venue BYBIT ((position 1 Buy 1 100)\<lparr>livePnl := Some (Fin (- 7 / 2))\<rparr>),
          on_venue BYBIT (stop_order 2 1 Sell 1 95)] \<and>
   order_effect 7 ''BTC-USDT'' (two_books (book_at 94 95) (book_at 96 97)) OKX
       [on_venue BYBIT (position 1 Buy 1 100), on_venue BYBIT (stop_order 2 1 Sell 1 95)] =
     Inr [on_venue BYBIT ((position 1 Buy 1 100)
            \<lparr>pnl := Some (Fin (- 6)), livePnl := Some (Fin (- 11 / 2)),
             exitResult := Some (with_executedAt \<lparr>avgFillPrice = Fin 94, slippage = Fin 0,
                                    filledPercentage = Fin 100, priceImpact = Fin 0\<rparr> 7)\<rparr>)] \<and>
   order_effect 7 ''BTC-USDT'' (\<lambda>_. book_at 94 95) OKX
       [position 1 Buy 1 94, stop_order 2 1 Sell 1 95] =
     Inr [(position 1 Buy 1 94)
            \<lparr>pnl := Some (Fin 0), livePnl := Some (Fin (1 / 2)),
             exitResult := Some (with_executedAt \<lparr>avgFillPrice = Fin 94, slippage = Fin 0,
                                    filledPercentage = Fin 100, priceImpact = Fin 0\<rparr> 7)\<rparr>] \<and>
   needs_processing ((position 1 Buy 1 94)\<lparr>pnl := Some (Fin 0)\<rparr>) \<and>
   open_position_like (buy_market OKX 1) ((position 1 Buy 1 94)\<lparr>pnl := Some (Fin 0)\<rparr>)"
  by (simp add: stop_triggers_def handleAddStopLoss_def on_venue_def two_books_def effect_eval
        Let_def ledger_eval)

text \<open>
  C6, at a Sell limit of 1 at 102 held on Bybit. The best bid of Bybit is below 102 at
  each of the three book updates, so the order is not marketable on its venue, and the
  timer of the order, which reads the book of Bybit, leaves it Pending. While Bybit is
  selected the effect leaves the order Pending too; once OKX is selected, whose best
  bid is 103, the effect fills the order from the bids of OKX at 103.
\<close>

theorem C6_limit_filled_from_selected_exchange:
  "list_all (\<lambda>t. \<not> marketable_in (t_books t BYBIT) (on_venue BYBIT (new_order 1 0 (sell_limit 1 102))))
      switching_ticks \<and>
   scheduled_execution 0 1 0 ((sell_limit 1 102)\<lparr>venue := BYBIT\<rparr>)
       (two_books (book_at 103 104) (book_at 99 100))
       (place_order 1 0 ((sell_limit 1 102)\<lparr>venue := BYBIT\<rparr>) []) =
     Inr [on_venue BYBIT (new_order 1 0 (sell_limit 1 102))] \<and>
   run_effects (take 2 switching_ticks) [on_venue BYBIT (new_order 1 0 (sell_limit 1 102))] =
     Inr [on_venue BYBIT (new_order 1 0 (sell_limit 1 102))] \<and>
   run_effects switching_ticks [on_venue BYBIT (new_order 1 0 (sell_limit 1 102))] =
     Inr [on_venue BYBIT ((new_order 1 0 (sell_limit 1 102))
            \<lparr>status := Filled,
             result := Some (with_executedAt \<lparr>avgFillPrice = Fin 103, slippage = Fin 0,
                                filledPercentage = Fin 100, priceImpact = Fin 0\<rparr> 3),
             timeToFill := Some (3 / 1000)\<rparr>)]"
  by (simp add: switching_ticks_def marketable_in_def marketable_def scheduled_execution_def
        zero_impact_def on_venue_def two_books_def effect_eval Let_def ledger_eval)

end
